theory Spec2Isabelle
  imports Main
begin

section \<open>Overview\<close>

text \<open>
  A shallow embedding of the semantic validation and the quick-fix engine of the SysY
  language server: the enrichment of diagnostic messages (\<open>ErrorMessageProvider\<close>),
  the checks of \<open>DeclValidator\<close> and \<open>FuncValidator\<close> as the validation registry runs
  them, the resolvers and the dispatcher of \<open>SysyQuickFixProvider\<close>, and the type
  resolution of the hover provider. Exceptions are values of a sum type, loops are
  recursive functions over the lists they iterate, and the calls of the validation
  acceptor are the list a check returns. The definitions come first; the properties
  proved of them follow from the section on enrichment onwards.
\<close>

section \<open>JavaScript strings\<close>

text \<open>
  A JavaScript string is a sequence of UTF-16 code units; \<open>length\<close>, \<open>includes\<close>,
  \<open>substring\<close> and the regular expressions of the sources (none carries the \<open>u\<close> flag)
  all count code units. A string is therefore a list of code units, each a natural
  number. ASCII text is written \<open>js ''...''\<close>; the Chinese texts of the sources are
  written as the lists of their code units.
\<close>

type_synonym jsstring = "nat list"

definition js :: "string \<Rightarrow> jsstring" where
  "js s = map of_char s"

text \<open>\<open>s.startsWith(p)\<close>, \<open>s.endsWith(p)\<close> and \<open>s.includes(p)\<close>.\<close>

fun js_startsWith :: "jsstring \<Rightarrow> jsstring \<Rightarrow> bool" where
  "js_startsWith s [] = True"
| "js_startsWith [] (c # p) = False"
| "js_startsWith (a # s) (c # p) = (a = c \<and> js_startsWith s p)"

definition js_endsWith :: "jsstring \<Rightarrow> jsstring \<Rightarrow> bool" where
  "js_endsWith s p = js_startsWith (rev s) (rev p)"

fun js_includes :: "jsstring \<Rightarrow> jsstring \<Rightarrow> bool" where
  "js_includes [] p = js_startsWith [] p"
| "js_includes (a # s) p = (js_startsWith (a # s) p \<or> js_includes s p)"

text \<open>
  \<open>s.substring(a, b)\<close> for non-negative arguments: both are clamped to the length and
  swapped when \<open>a > b\<close>.
\<close>

definition js_substring :: "jsstring \<Rightarrow> nat \<Rightarrow> nat \<Rightarrow> jsstring" where
  "js_substring s a b =
     (let a' = min a (length s); b' = min b (length s)
      in take (max a' b' - min a' b') (drop (min a' b') s))"

text \<open>\<open>s.indexOf(p)\<close>: the first index where \<open>p\<close> occurs, \<open>None\<close> for \<open>-1\<close>.\<close>

fun js_indexOf_from :: "jsstring \<Rightarrow> jsstring \<Rightarrow> nat \<Rightarrow> nat option" where
  "js_indexOf_from [] p i = (if js_startsWith [] p then Some i else None)"
| "js_indexOf_from (a # s) p i =
     (if js_startsWith (a # s) p then Some i else js_indexOf_from s p (Suc i))"

definition js_indexOf :: "jsstring \<Rightarrow> jsstring \<Rightarrow> nat option" where
  "js_indexOf s p = js_indexOf_from s p 0"

text \<open>The decimal text of a non-negative integer, as a template literal prints it.\<close>

fun digits_of :: "nat \<Rightarrow> jsstring" where
  "digits_of n = (if n < 10 then [48 + n] else digits_of (n div 10) @ [48 + n mod 10])"

declare digits_of.simps [simp del]

text \<open>
  The character classes of the regular expressions: \<open>\s\<close> (white space and line
  terminators), \<open>\d\<close>, \<open>\w\<close> and the dot (anything but a line terminator).
\<close>

definition is_space :: "nat \<Rightarrow> bool" where
  "is_space c \<longleftrightarrow>
     c \<in> {9, 10, 11, 12, 13, 32, 160, 5760, 8232, 8233, 8239, 8287, 12288, 65279}
     \<or> (8192 \<le> c \<and> c \<le> 8202)"

definition is_digit :: "nat \<Rightarrow> bool" where
  "is_digit c \<longleftrightarrow> 48 \<le> c \<and> c \<le> 57"

definition is_word :: "nat \<Rightarrow> bool" where
  "is_word c \<longleftrightarrow> is_digit c \<or> (65 \<le> c \<and> c \<le> 90) \<or> (97 \<le> c \<and> c \<le> 122) \<or> c = 95"

definition is_line_terminator :: "nat \<Rightarrow> bool" where
  "is_line_terminator c \<longleftrightarrow> c = 10 \<or> c = 13 \<or> c = 8232 \<or> c = 8233"

text \<open>
  \<open>parseInt(s, 10)\<close>: leading white space is skipped, an optional sign is read, then
  the longest run of decimal digits; without a digit the result is \<open>NaN\<close>, here \<open>None\<close>.
  \<open>parseInt(s)\<close> without a radix reads the same on a text of decimal digits, the only
  texts the sources pass to it.
\<close>

fun digits_value :: "jsstring \<Rightarrow> nat \<Rightarrow> nat" where
  "digits_value [] acc = acc"
| "digits_value (c # s) acc = digits_value s (10 * acc + (c - 48))"

definition parseInt :: "jsstring \<Rightarrow> int option" where
  "parseInt s =
     (let t = dropWhile is_space s;
          neg = (t \<noteq> [] \<and> hd t = 45);
          u = (if t \<noteq> [] \<and> (hd t = 45 \<or> hd t = 43) then tl t else t);
          ds = takeWhile is_digit u
      in if ds = [] then None
         else Some (if neg then - int (digits_value ds 0) else int (digits_value ds 0)))"

text \<open>\<open>s.trim()\<close> and \<open>s.split(",")\<close> (a separator of one code unit).\<close>

definition js_trim :: "jsstring \<Rightarrow> jsstring" where
  "js_trim s = rev (dropWhile is_space (rev (dropWhile is_space s)))"

fun js_split :: "jsstring \<Rightarrow> nat \<Rightarrow> jsstring list" where
  "js_split [] sep = [[]]"
| "js_split (c # s) sep =
     (if c = sep then [] # js_split s sep
      else (case js_split s sep of [] \<Rightarrow> [[c]] | piece # pieces \<Rightarrow> (c # piece) # pieces))"

fun js_join :: "jsstring list \<Rightarrow> jsstring \<Rightarrow> jsstring" where
  "js_join [] sep = []"
| "js_join [x] sep = x"
| "js_join (x # y # xs) sep = x @ sep @ js_join (y # xs) sep"

section \<open>Errors\<close>

text \<open>
  The exceptions the modelled code can raise are \<open>SyntaxError\<close> and \<open>TypeError\<close>.
  \<open>NotModelled\<close> is not an exception of the program: it marks an input on which the
  model stops short of the JavaScript library (a regular expression built at run time
  from a text whose syntax the model does not compile, a number beyond the integers
  that a JavaScript number holds exactly). The program does something definite
  there, it computes on or raises a \<open>SyntaxError\<close>; what the model answers from such an
  input is no statement about the program, and the theorems about the resolvers keep
  their inputs away from it.
\<close>

datatype js_error = SyntaxError | TypeError | NotModelled

section \<open>Regular expressions\<close>

text \<open>
  Every regular expression of the sources is a sequence of literal texts and of
  quantified character classes (greedy, as all of them are), possibly closed by \<open>$\<close>.
  \<open>rx_match\<close> matches such a sequence at the start of a text with the backtracking
  order of JavaScript (the longest repetition is tried first) and returns the text
  consumed by each item; \<open>rx_exec\<close> tries every start index from the left, as
  \<open>String.prototype.match\<close> does for an expression without the \<open>g\<close> flag.
\<close>

datatype rx_class =
  Space | Digit | Word | Dot | Chr nat | OneOf "rx_class list" | Except "rx_class list"

fun class_has :: "rx_class \<Rightarrow> nat \<Rightarrow> bool" where
  "class_has Space c = is_space c"
| "class_has Digit c = is_digit c"
| "class_has Word c = is_word c"
| "class_has Dot c = (\<not> is_line_terminator c)"
| "class_has (Chr d) c = (c = d)"
| "class_has (OneOf cs) c = list_ex (\<lambda>k. class_has k c) cs"
| "class_has (Except cs) c = (\<not> list_ex (\<lambda>k. class_has k c) cs)"

datatype rx_item = Lit jsstring | Rep rx_class nat "nat option" | End

fun first_some :: "(nat \<Rightarrow> 'a option) \<Rightarrow> nat list \<Rightarrow> 'a option" where
  "first_some f [] = None"
| "first_some f (k # ks) = (case f k of Some r \<Rightarrow> Some r | None \<Rightarrow> first_some f ks)"

definition rep_lengths :: "rx_class \<Rightarrow> nat \<Rightarrow> nat option \<Rightarrow> jsstring \<Rightarrow> nat list" where
  "rep_lengths c lo hi s =
     (let n = length (takeWhile (class_has c) s);
          m = (case hi of None \<Rightarrow> n | Some h \<Rightarrow> min n h)
      in rev [lo ..< Suc m])"

primrec rx_match :: "rx_item list \<Rightarrow> jsstring \<Rightarrow> jsstring list option" where
  "rx_match [] s = Some []"
| "rx_match (it # its) s =
     (case it of
        Lit l \<Rightarrow>
          (if js_startsWith s l
           then map_option ((#) l) (rx_match its (drop (length l) s)) else None)
      | Rep c lo hi \<Rightarrow>
          first_some (\<lambda>k. map_option ((#) (take k s)) (rx_match its (drop k s)))
            (rep_lengths c lo hi s)
      | End \<Rightarrow> (if s = [] then map_option ((#) []) (rx_match its s) else None))"

fun rx_exec_from :: "rx_item list \<Rightarrow> jsstring \<Rightarrow> nat \<Rightarrow> (nat \<times> jsstring list) option" where
  "rx_exec_from its [] i = map_option (Pair i) (rx_match its [])"
| "rx_exec_from its (c # s) i =
     (case rx_match its (c # s) of
        Some segs \<Rightarrow> Some (i, segs)
      | None \<Rightarrow> rx_exec_from its s (Suc i))"

definition rx_exec :: "rx_item list \<Rightarrow> jsstring \<Rightarrow> (nat \<times> jsstring list) option" where
  "rx_exec its s = rx_exec_from its s 0"

definition rx_test :: "rx_item list \<Rightarrow> jsstring \<Rightarrow> bool" where
  "rx_test its s = (rx_exec its s \<noteq> None)"

text \<open>
  An expression \<open>A|B\<close>: at every start index the alternatives are tried in order.
  The result holds the index of the match, the number of the alternative and the texts
  its items consumed.
\<close>

fun rx_first_alt :: "rx_item list list \<Rightarrow> nat \<Rightarrow> jsstring \<Rightarrow> (nat \<times> jsstring list) option" where
  "rx_first_alt [] k s = None"
| "rx_first_alt (alt # alts) k s =
     (case rx_match alt s of
        Some segs \<Rightarrow> Some (k, segs)
      | None \<Rightarrow> rx_first_alt alts (Suc k) s)"

fun rx_exec_alts_from ::
  "rx_item list list \<Rightarrow> jsstring \<Rightarrow> nat \<Rightarrow> (nat \<times> nat \<times> jsstring list) option" where
  "rx_exec_alts_from alts [] i = map_option (Pair i) (rx_first_alt alts 0 [])"
| "rx_exec_alts_from alts (c # s) i =
     (case rx_first_alt alts 0 (c # s) of
        Some r \<Rightarrow> Some (i, r)
      | None \<Rightarrow> rx_exec_alts_from alts s (Suc i))"

definition rx_exec_alts :: "rx_item list list \<Rightarrow> jsstring \<Rightarrow> (nat \<times> nat \<times> jsstring list) option" where
  "rx_exec_alts alts s = rx_exec_alts_from alts s 0"

text \<open>
  \<open>s.replace(regex, replacement)\<close> for an expression without the \<open>g\<close> flag and a
  replacement text without \<open>$\<close>: the first match is replaced, and a text without a
  match is returned as it is.
\<close>

definition js_replace :: "rx_item list \<Rightarrow> jsstring \<Rightarrow> jsstring \<Rightarrow> jsstring" where
  "js_replace regex s replacement =
     (case rx_exec regex s of
        None \<Rightarrow> s
      | Some (i, segs) \<Rightarrow> take i s @ replacement @ drop (i + length (concat segs)) s)"

text \<open>
  \<open>parseInt\<close> of a text of decimal digits, as the resolvers apply it to the digits a
  regular expression captured. The model counts with natural numbers. Beyond
  9007199254740991 \<open>parseInt\<close> returns the nearest number of double precision and the
  resolver goes on with it; that rounding and the text a template literal prints for
  it are not modelled.
\<close>

definition parseCount :: "jsstring \<Rightarrow> js_error + nat" where
  "parseCount ds =
     (if digits_value ds 0 \<le> 9007199254740991 then Inr (digits_value ds 0)
       else Inl NotModelled)"

text \<open>
  \<open>new RegExp(name + tail)\<close> for a text \<open>name\<close> known only at run time and a fixed,
  well-formed \<open>tail\<close> (given compiled) that starts with an item of its own.
  A name without regular-expression syntax stands for itself. A name with an opening
  parenthesis and without backslash, bracket or closing parenthesis leaves a group
  open, which the constructor rejects with a \<open>SyntaxError\<close>. A name made of ordinary
  characters and dots, each possibly followed by one of the greedy quantifiers \<open>*\<close>,
  \<open>+\<close> and \<open>?\<close>, is compiled item by item. Other names are not modelled.
\<close>

definition regexp_syntax_chars :: "nat list" where
  "regexp_syntax_chars = js ''^$.*+?()[]{}|'' @ [92]"

definition regexp_plain :: "jsstring \<Rightarrow> bool" where
  "regexp_plain name = list_all (\<lambda>c. c \<notin> set regexp_syntax_chars) name"

definition regexp_open_group :: "jsstring \<Rightarrow> bool" where
  "regexp_open_group name \<longleftrightarrow> 40 \<in> set name \<and> 41 \<notin> set name \<and> 91 \<notin> set name \<and> 92 \<notin> set name"

definition rx_atom :: "nat \<Rightarrow> rx_class option" where
  "rx_atom c =
     (if c = 46 then Some Dot
      else if c \<in> set regexp_syntax_chars then None
      else Some (Chr c))"

definition rx_quantified :: "rx_class \<Rightarrow> nat \<Rightarrow> rx_item" where
  "rx_quantified k q =
     (if q = 42 then Rep k 0 None
      else if q = 43 then Rep k 1 None
      else Rep k 0 (Some 1))"

fun rx_compile :: "jsstring \<Rightarrow> rx_item list option" where
  "rx_compile [] = Some []"
| "rx_compile [c] = map_option (\<lambda>k. [Rep k 1 (Some 1)]) (rx_atom c)"
| "rx_compile (c # q # s) =
     (case rx_atom c of
        None \<Rightarrow> None
      | Some k \<Rightarrow>
          if q = 42 \<or> q = 43 \<or> q = 63
          then (case s of
                  [] \<Rightarrow> Some [rx_quantified k q]
                | d # _ \<Rightarrow>
                    if rx_atom d = None then None
                    else map_option ((#) (rx_quantified k q)) (rx_compile s))
          else map_option ((#) (Rep k 1 (Some 1))) (rx_compile (q # s)))"

definition new_RegExp :: "jsstring \<Rightarrow> rx_item list \<Rightarrow> js_error + rx_item list" where
  "new_RegExp name tail =
     (if regexp_plain name then Inr (Lit name # tail)
      else if regexp_open_group name then Inl SyntaxError
      else case rx_compile name of
             Some items \<Rightarrow> Inr (items @ tail)
           | None \<Rightarrow> Inl NotModelled)"

section \<open>Diagnostic enrichment: \<open>ErrorMessageProvider\<close>\<close>

datatype ErrorCategory = VARIABLE | FUNCTION | ARRAY | TYPE_CAT | CONTROL | OTHER

datatype ErrorInfo =
  ErrorInfo (info_message: jsstring) (info_suggestion: jsstring) (info_category: ErrorCategory)

text \<open>
  The static table \<open>ERROR_DETAILS\<close>, in the order of the object literal, which is the
  order \<open>for ... in\<close> enumerates its keys (none of them is an array index). The keys
  written in double quotes in the source are quoted property names: the quotes are not
  part of the key.
\<close>

definition key_cannot_redeclare :: jsstring where
  "key_cannot_redeclare =
    [26080, 27861, 37325, 26032, 22768, 26126, 22359, 33539, 22260, 21464, 37327]"

definition info_cannot_redeclare :: ErrorInfo where
  "info_cannot_redeclare = ErrorInfo
    ([22312, 21516, 19968, 20010, 20316, 29992, 22495, 20013, 65292, 27599, 20010, 21464, 37327,
     21517, 21482, 33021, 22768, 26126, 19968, 27425, 12290, 35831, 20351, 29992, 19981, 21516,
     30340, 21464, 37327, 21517, 25110, 22312, 19981, 21516, 30340, 20316, 29992, 22495, 20013,
     22768, 26126, 12290])
    ([20351, 29992, 19981, 21516, 30340, 21464, 37327, 21517, 25110, 31227, 38500, 37325, 22797,
     22768, 26126])
    VARIABLE"

definition key_used_undefined_variable :: jsstring where
  "key_used_undefined_variable =
    [20351, 29992, 20102, 26410, 23450, 20041, 30340, 21464, 37327]"

definition info_used_undefined_variable :: ErrorInfo where
  "info_used_undefined_variable = ErrorInfo
    ([23581, 35797, 20351, 29992, 19968, 20010, 26410, 22312, 24403, 21069, 20316, 29992, 22495,
     20013, 22768, 26126, 30340, 21464, 37327, 12290, 35831, 30830, 20445, 22312, 20351, 29992,
     21069, 20808, 22768, 26126, 21464, 37327, 12290])
    ([20808, 22768, 26126, 21464, 37327, 20877, 20351, 29992])
    VARIABLE"

definition key_undeclared_variable :: jsstring where
  "key_undeclared_variable =
    [26410, 22768, 26126, 30340, 21464, 37327]"

definition info_undeclared_variable :: ErrorInfo where
  "info_undeclared_variable = ErrorInfo
    ([24341, 29992, 20102, 19968, 20010, 22312, 24403, 21069, 20316, 29992, 22495, 20013, 19981,
     23384, 22312, 30340, 21464, 37327, 12290, 21464, 37327, 24517, 39035, 22312, 20351, 29992,
     21069, 22768, 26126, 12290])
    ([22768, 26126, 35813, 21464, 37327, 25110, 26816, 26597, 21464, 37327, 21517, 26159, 21542,
     25340, 20889, 38169, 35823])
    VARIABLE"

definition key_array_init_exceeds :: jsstring where
  "key_array_init_exceeds =
    [25968, 32452, 30340, 21021, 22987, 21270, 20803, 32032, 25968, 37327, 36229, 36807, 20102,
    25968, 32452, 22823, 23567]"

definition info_array_init_exceeds :: ErrorInfo where
  "info_array_init_exceeds = ErrorInfo
    ([25968, 32452, 21021, 22987, 21270, 26102, 25552, 20379, 30340, 20803, 32032, 25968, 37327,
     19981, 33021, 36229, 36807, 25968, 32452, 22768, 26126, 30340, 22823, 23567, 12290, 35831,
     20943, 23569, 21021, 22987, 21270, 20803, 32032, 30340, 25968, 37327, 25110, 22686, 21152,
     25968, 32452, 22823, 23567, 12290])
    ([22686, 22823, 25968, 32452, 22768, 26126, 22823, 23567, 25110, 20943, 23569, 21021, 22987,
     21270, 20803, 32032])
    ARRAY"

definition key_called_undefined_function :: jsstring where
  "key_called_undefined_function =
    [35843, 29992, 20102, 26410, 23450, 20041, 30340, 20989, 25968]"

definition info_called_undefined_function :: ErrorInfo where
  "info_called_undefined_function = ErrorInfo
    ([23581, 35797, 35843, 29992, 19968, 20010, 26410, 22768, 26126, 30340, 20989, 25968, 12290,
     35831, 30830, 20445, 22312, 35843, 29992, 21069, 20808, 23450, 20041, 35813, 20989, 25968,
     12290])
    ([23450, 20041, 35813, 20989, 25968, 25110, 26816, 26597, 20989, 25968, 21517, 26159, 21542,
     25340, 20889, 38169, 35823])
    FUNCTION"

definition key_function_name_defined :: jsstring where
  "key_function_name_defined =
    [20989, 25968, 21517, 24050, 32463, 23450, 20041, 36807]"

definition info_function_name_defined :: ErrorInfo where
  "info_function_name_defined = ErrorInfo
    ([22312, 21516, 19968, 20010, 20316, 29992, 22495, 20013, 65292, 27599, 20010, 20989, 25968,
     21517, 21482, 33021, 23450, 20041, 19968, 27425, 12290, 35831, 20351, 29992, 19981, 21516,
     30340, 20989, 25968, 21517, 12290])
    ([20351, 29992, 19981, 21516, 30340, 20989, 25968, 21517, 25110, 31227, 38500, 37325, 22797,
     23450, 20041])
    FUNCTION"

definition key_param_count_mismatch :: jsstring where
  "key_param_count_mismatch =
    [21442, 25968, 20010, 25968, 19981, 21305, 37197]"

definition info_param_count_mismatch :: ErrorInfo where
  "info_param_count_mismatch = ErrorInfo
    ([20989, 25968, 35843, 29992, 26102, 25552, 20379, 30340, 21442, 25968, 25968, 37327, 19982,
     20989, 25968, 23450, 20041, 26102, 30340, 21442, 25968, 25968, 37327, 19981, 21305, 37197,
     12290, 35831, 26816, 26597, 20989, 25968, 23450, 20041, 24182, 25552, 20379, 27491, 30830,
     25968, 37327, 30340, 21442, 25968, 12290])
    ([35843, 25972, 21442, 25968, 25968, 37327, 20197, 21305, 37197, 20989, 25968, 23450, 20041])
    FUNCTION"

definition key_break_in_non_loop :: jsstring where
  "key_break_in_non_loop =
    [38750, 24490, 29615, 22359, 20013, 20351, 29992, 20102] @ js '' Stmtbreak '' @ [35821,
    21477]"

definition info_break_in_non_loop :: ErrorInfo where
  "info_break_in_non_loop = ErrorInfo
    (js ''break'' @ [35821, 21477, 21482, 33021, 29992, 22312, 24490, 29615, 20869, 37096,
     12290, 35831, 31227, 38500, 19981, 22312, 24490, 29615, 20307, 20869, 30340] @ js ''break''
     @ [35821, 21477, 12290])
    ([31227, 38500] @ js ''break'' @ [35821, 21477, 25110, 23558, 20854, 25918, 22312, 24490,
     29615, 20869])
    CONTROL"

definition key_continue_in_non_loop :: jsstring where
  "key_continue_in_non_loop =
    [38750, 24490, 29615, 22359, 20013, 20351, 29992, 20102] @ js '' Stmtcontinue '' @ [35821,
    21477]"

definition info_continue_in_non_loop :: ErrorInfo where
  "info_continue_in_non_loop = ErrorInfo
    (js ''continue'' @ [35821, 21477, 21482, 33021, 29992, 22312, 24490, 29615, 20869, 37096,
     12290, 35831, 31227, 38500, 19981, 22312, 24490, 29615, 20307, 20869, 30340] @
     js ''continue'' @ [35821, 21477, 12290])
    ([31227, 38500] @ js ''continue'' @ [35821, 21477, 25110, 23558, 20854, 25918, 22312, 24490,
     29615, 20869])
    CONTROL"

definition key_missing_return :: jsstring where
  "key_missing_return =
    [26377, 36820, 22238, 20540, 30340, 20989, 25968, 32570, 23569] @ js '' return '' @ [35821,
    21477]"

definition info_missing_return :: ErrorInfo where
  "info_missing_return = ErrorInfo
    ([26377, 36820, 22238, 20540, 31867, 22411, 30340, 20989, 25968, 24517, 39035, 21253, 21547,
     33267, 23569, 19968, 20010] @ js ''return'' @ [35821, 21477, 12290, 35831, 28155, 21152,
     24102, 26377, 36866, 24403, 36820, 22238, 20540, 30340] @ js ''return'' @ [35821, 21477,
     12290])
    ([28155, 21152, 24102, 26377, 36866, 24403, 36820, 22238, 20540, 30340] @ js ''return'' @
     [35821, 21477])
    FUNCTION"

definition key_empty_return :: jsstring where
  "key_empty_return =
    [26377, 36820, 22238, 20540, 30340, 20989, 25968, 19981, 24212, 36820, 22238, 20026, 31354]"

definition info_empty_return :: ErrorInfo where
  "info_empty_return = ErrorInfo
    ([26377, 36820, 22238, 20540, 30340, 20989, 25968, 38656, 35201, 22312] @ js ''return'' @
     [35821, 21477, 20013, 25552, 20379, 19968, 20010, 20540, 12290, 35831, 22312] @
     js ''return'' @ [35821, 21477, 20013, 28155, 21152, 36866, 24403, 30340, 36820, 22238,
     20540, 12290])
    ([22312] @ js ''return'' @ [35821, 21477, 20013, 28155, 21152, 36820, 22238, 20540])
    FUNCTION"

definition key_void_return_value :: jsstring where
  "key_void_return_value =
    js ''void '' @ [20989, 25968, 19981, 24212, 23384, 22312, 38750, 31354, 36820, 22238, 20540]"

definition info_void_return_value :: ErrorInfo where
  "info_void_return_value = ErrorInfo
    (js ''void'' @ [31867, 22411, 30340, 20989, 25968, 19981, 24212, 35813, 26377, 36820, 22238,
     20540, 12290, 35831, 31227, 38500] @ js ''return'' @ [35821, 21477, 20013, 30340, 34920,
     36798, 24335, 12290])
    ([31227, 38500] @ js ''return'' @ [35821, 21477, 20013, 30340, 34920, 36798, 24335, 25110,
     20351, 29992, 39] @ js ''return;'' @ [39])
    FUNCTION"

definition key_void_assignment :: jsstring where
  "key_void_assignment =
    [19981, 33021, 23558] @ js ''void'' @ [31867, 22411, 21464, 37327, 21442, 19982, 36816,
    31639, 25110, 29992, 20110, 36171, 20540]"

definition info_void_assignment :: ErrorInfo where
  "info_void_assignment = ErrorInfo
    (js ''void'' @ [31867, 22411, 30340, 20989, 25968, 36820, 22238, 20540, 19981, 33021, 29992,
     20110, 36171, 20540, 25110, 21442, 19982, 36816, 31639, 12290, 35831, 20351, 29992, 26377,
     36820, 22238, 20540, 30340, 20989, 25968, 12290])
    ([20462, 25913, 20989, 25968, 36820, 22238, 31867, 22411, 25110, 19981, 23558, 32467, 26524,
     29992, 20110, 36171, 20540])
    TYPE_CAT"

definition key_type_mismatch :: jsstring where
  "key_type_mismatch =
    [31867, 22411, 19981, 21305, 37197]"

definition info_type_mismatch :: ErrorInfo where
  "info_type_mismatch = ErrorInfo
    ([34920, 36798, 24335, 30340, 31867, 22411, 19982, 39044, 26399, 30340, 31867, 22411, 19981,
     21305, 37197, 12290, 35831, 30830, 20445, 31867, 22411, 20860, 23481, 25110, 28155, 21152,
     36866, 24403, 30340, 31867, 22411, 36716, 25442, 12290])
    ([20462, 25913, 34920, 36798, 24335, 25110, 28155, 21152, 31867, 22411, 36716, 25442])
    TYPE_CAT"

definition key_array_init_exceeds_pattern :: jsstring where
  "key_array_init_exceeds_pattern =
    [25968, 32452] @ js ''.*'' @ [21021, 22987, 21270, 20803, 32032, 25968, 37327, 36229, 36807,
    20102, 25968, 32452, 22823, 23567]"

definition info_array_init_exceeds_pattern :: ErrorInfo where
  "info_array_init_exceeds_pattern = ErrorInfo
    ([25968, 32452, 21021, 22987, 21270, 26102, 25552, 20379, 30340, 20803, 32032, 25968, 37327,
     19981, 33021, 36229, 36807, 25968, 32452, 22768, 26126, 30340, 22823, 23567, 12290, 35831,
     20943, 23569, 21021, 22987, 21270, 20803, 32032, 30340, 25968, 37327, 25110, 22686, 21152,
     25968, 32452, 22823, 23567, 12290])
    ([22686, 22823, 25968, 32452, 22823, 23567, 25110, 20943, 23569, 21021, 22987, 21270, 20803,
     32032])
    ARRAY"

definition ERROR_DETAILS :: "(jsstring \<times> ErrorInfo) list" where
  "ERROR_DETAILS =
    [(key_cannot_redeclare, info_cannot_redeclare),
     (key_used_undefined_variable, info_used_undefined_variable),
     (key_undeclared_variable, info_undeclared_variable),
     (key_array_init_exceeds, info_array_init_exceeds),
     (key_called_undefined_function, info_called_undefined_function),
     (key_function_name_defined, info_function_name_defined),
     (key_param_count_mismatch, info_param_count_mismatch),
     (key_break_in_non_loop, info_break_in_non_loop),
     (key_continue_in_non_loop, info_continue_in_non_loop),
     (key_missing_return, info_missing_return),
     (key_empty_return, info_empty_return),
     (key_void_return_value, info_void_return_value),
     (key_void_assignment, info_void_assignment),
     (key_type_mismatch, info_type_mismatch),
     (key_array_init_exceeds_pattern, info_array_init_exceeds_pattern)]"


text \<open>The texts \<open>getEnhancedMessage\<close> adds around the explanation and the suggestion.\<close>

definition unknown_error :: jsstring where
  "unknown_error = [26410, 30693, 38169, 35823]"

definition details_label :: jsstring where
  "details_label = [10, 10, 35814, 32454, 20449, 24687, 65306]"

definition suggestion_label :: jsstring where
  "suggestion_label = [10, 24314, 35758, 65306]"

definition enhance :: "jsstring \<Rightarrow> ErrorInfo \<Rightarrow> jsstring" where
  "enhance message errorInfo =
     message @ details_label @ info_message errorInfo @ suggestion_label
       @ info_suggestion errorInfo"

text \<open>
  The first loop of \<open>getEnhancedMessage\<close> and \<open>getErrorCategory\<close>: the first key, in
  table order, that the message contains.
\<close>

fun exactMatch :: "(jsstring \<times> ErrorInfo)
  list \<Rightarrow> jsstring \<Rightarrow> ErrorInfo option" where
  "exactMatch [] message = None"
| "exactMatch ((errorPattern, errorInfo) # rest) message =
     (if js_includes message errorPattern then Some errorInfo else exactMatch rest message)"

text \<open>
  The second loop: a key that starts and ends with a double quote is stripped of its
  first and last code unit, compiled and tested against the message. The constructor
  may throw, which ends the loop with the exception.
\<close>

definition is_quoted :: "jsstring \<Rightarrow> bool" where
  "is_quoted errorPattern \<longleftrightarrow> js_startsWith errorPattern [34] \<and> js_endsWith errorPattern [34]"

definition regexPattern :: "jsstring \<Rightarrow> jsstring" where
  "regexPattern errorPattern = js_substring errorPattern 1 (length errorPattern - 1)"

fun regexMatch :: "(jsstring \<times> ErrorInfo)
  list \<Rightarrow> jsstring \<Rightarrow> js_error + ErrorInfo option" where
  "regexMatch [] message = Inr None"
| "regexMatch ((errorPattern, errorInfo) # rest) message =
     (if is_quoted errorPattern
      then (case new_RegExp (regexPattern errorPattern) [] of
              Inl e \<Rightarrow> Inl e
            | Inr regex \<Rightarrow>
                if rx_test regex message then Inr (Some errorInfo) else regexMatch rest message)
      else regexMatch rest message)"

text \<open>
  The bodies of the three methods over a table; the class runs them on \<open>ERROR_DETAILS\<close>.
  \<open>None\<close> is the \<open>undefined\<close> that \<open>getErrorCategory\<close> returns for an empty message.
\<close>

definition enhancedMessageIn :: "(jsstring \<times> ErrorInfo)
  list \<Rightarrow> jsstring \<Rightarrow> js_error + jsstring" where
  "enhancedMessageIn details message =
     (if message = [] then Inr unknown_error
      else case exactMatch details message of
        Some errorInfo \<Rightarrow> Inr (enhance message errorInfo)
      | None \<Rightarrow>
          (case regexMatch details message of
             Inl e \<Rightarrow> Inl e
           | Inr (Some errorInfo) \<Rightarrow> Inr (enhance message errorInfo)
           | Inr None \<Rightarrow> Inr message))"

definition safeEnhancedMessageIn :: "(jsstring \<times> ErrorInfo)
  list \<Rightarrow> jsstring \<Rightarrow> js_error + jsstring" where
  "safeEnhancedMessageIn details message =
     (case enhancedMessageIn details message of
        Inr enhanced \<Rightarrow> Inr enhanced
      | Inl error \<Rightarrow> Inr (if message = [] then unknown_error else message))"

definition errorCategoryIn ::
  "(jsstring \<times> ErrorInfo)
    list \<Rightarrow> jsstring \<Rightarrow> js_error + ErrorCategory option" where
  "errorCategoryIn details message =
     (if message = [] then Inr None
      else case exactMatch details message of
        Some errorInfo \<Rightarrow> Inr (Some (info_category errorInfo))
      | None \<Rightarrow>
          (case regexMatch details message of
             Inl e \<Rightarrow> Inl e
           | Inr (Some errorInfo) \<Rightarrow> Inr (Some (info_category errorInfo))
           | Inr None \<Rightarrow> Inr (Some OTHER)))"

definition getEnhancedMessage :: "jsstring \<Rightarrow> js_error + jsstring" where
  "getEnhancedMessage message = enhancedMessageIn ERROR_DETAILS message"

definition getSafeEnhancedMessage :: "jsstring \<Rightarrow> js_error + jsstring" where
  "getSafeEnhancedMessage message = safeEnhancedMessageIn ERROR_DETAILS message"

definition getErrorCategory :: "jsstring \<Rightarrow> js_error + ErrorCategory option" where
  "getErrorCategory message = errorCategoryIn ERROR_DETAILS message"



section \<open>Diagnostics\<close>

datatype Position = Position (pos_line: nat) (pos_character: nat)

datatype Range = Range (range_start: Position) (range_end: Position)

datatype Severity = Sev_error | Sev_warning | Sev_hint

text \<open>The constants of \<open>ERROR_CODES\<close>.\<close>

definition UNDEFINED_VARIABLE :: string where "UNDEFINED_VARIABLE = ''undefined-variable''"
definition DUPLICATE_DECLARATION :: string where "DUPLICATE_DECLARATION = ''duplicate-declaration''"
definition ARRAY_SIZE_OVERFLOW :: string where "ARRAY_SIZE_OVERFLOW = ''array-size-overflow''"
definition UNDEFINED_FUNCTION :: string where "UNDEFINED_FUNCTION = ''undefined-function''"
definition DUPLICATE_FUNCTION :: string where "DUPLICATE_FUNCTION = ''duplicate-function''"
definition PARAMETER_MISMATCH :: string where "PARAMETER_MISMATCH = ''parameter-mismatch''"
definition INVALID_BREAK_CONTINUE :: string where "INVALID_BREAK_CONTINUE = ''invalid-break-continue''"
definition MISSING_RETURN :: string where "MISSING_RETURN = ''missing-return''"
definition EMPTY_RETURN :: string where "EMPTY_RETURN = ''empty-return''"
definition VOID_RETURN_VALUE :: string where "VOID_RETURN_VALUE = ''void-return-value''"
definition VOID_ASSIGNMENT :: string where "VOID_ASSIGNMENT = ''void-assignment''"
definition TYPE_MISMATCH :: string where "TYPE_MISMATCH = ''type-mismatch''"
definition MISSING_SEMICOLON :: string where "MISSING_SEMICOLON = ''missing-semicolon''"
definition UNMATCHED_BRACKETS :: string where "UNMATCHED_BRACKETS = ''unmatched-brackets''"
definition UNUSED_VARIABLE :: string where "UNUSED_VARIABLE = ''unused-variable''"

lemmas ERROR_CODES_defs =
  UNDEFINED_VARIABLE_def DUPLICATE_DECLARATION_def ARRAY_SIZE_OVERFLOW_def
  UNDEFINED_FUNCTION_def DUPLICATE_FUNCTION_def PARAMETER_MISMATCH_def
  INVALID_BREAK_CONTINUE_def MISSING_RETURN_def EMPTY_RETURN_def VOID_RETURN_VALUE_def
  VOID_ASSIGNMENT_def TYPE_MISMATCH_def MISSING_SEMICOLON_def UNMATCHED_BRACKETS_def
  UNUSED_VARIABLE_def

text \<open>
  The \<open>data\<close> object a validator attaches to a diagnostic. \<open>explanation\<close>,
  \<open>suggestion\<close> and \<open>category\<close> are always written; the other fields are absent
  (\<open>None\<close>) unless the check writes them.
\<close>

record DiagnosticData =
  data_explanation :: jsstring
  data_suggestion :: jsstring
  data_category :: ErrorCategory
  data_variableName :: "jsstring option"
  data_functionName :: "jsstring option"
  data_arrayName :: "jsstring option"
  data_returnType :: "jsstring option"
  data_expectedCount :: "nat option"
  data_actualCount :: "nat option"
  data_declaredSize :: "int option"
  data_actualSize :: "nat option"

definition diagnosticData :: "jsstring \<Rightarrow> jsstring \<Rightarrow> ErrorCategory \<Rightarrow> DiagnosticData" where
  "diagnosticData e s c =
     \<lparr>data_explanation = e, data_suggestion = s, data_category = c, data_variableName = None,
      data_functionName = None, data_arrayName = None, data_returnType = None, data_expectedCount = None,
      data_actualCount = None, data_declaredSize = None, data_actualSize = None\<rparr>"

text \<open>
  One call of the validation acceptor: \<open>accept(severity, message, {node, property,
  code, data})\<close>. The node is kept as its source range, from which the framework
  computes the range of the published diagnostic. A check is modelled as the list of
  its acceptor calls, in the order it makes them.
\<close>

record Accepted =
  acc_severity :: Severity
  acc_message :: jsstring
  acc_node :: Range
  acc_property :: "string option"
  acc_code :: "string option"
  acc_data :: "DiagnosticData option"

text \<open>
  The validators pass every message through \<open>getSafeEnhancedMessage\<close>. That method
  returns normally on every input (\<open>getSafeEnhancedMessage_returns\<close> below), so the
  checks read its result with \<open>safeMessage\<close>.
\<close>

definition safeMessage :: "jsstring \<Rightarrow> jsstring" where
  "safeMessage message =
     (case getSafeEnhancedMessage message of Inr enhanced \<Rightarrow> enhanced | Inl e \<Rightarrow> message)"

section \<open>The syntax tree\<close>

text \<open>
  The tree is produced by the generated parser, which is not part of the sources; the
  node types below carry the fields the validators and the hover provider read.
  An absent optional field is \<open>None\<close>. A cross-reference holds the text written in the
  program and the declaration it resolves to, if any.
\<close>

datatype Exp = Exp (exp_text: jsstring)

text \<open>
  Statements and blocks. \<open>checkStatementsInBlock\<close> takes its block as \<open>any\<close> and reads
  \<open>$type\<close>, \<open>blockItems\<close>, \<open>whilestmt\<close>, \<open>ifstmt\<close> and \<open>elsestmt\<close> from whatever node it
  meets, so one node type carries all of them. A block item is a declaration (no
  \<open>blockStmt\<close>) or a statement.
\<close>

datatype node =
  Node (ntype: string) (nrange: Range) (blockItems: "blockItem list option")
       (whilestmt: "node option") (ifstmt: "node option") (elsestmt: "node option")
       (tobereturn: "Exp option")
and blockItem = BlockItem (blockStmt: "node option")

record FuncFParam =
  param_btype :: jsstring
  param_name :: jsstring
  param_text :: "jsstring option"

record FuncDef =
  func_functype :: jsstring
  func_name :: jsstring
  func_funcFparam :: "FuncFParam list"
  func_block :: node
  func_range :: Range

record CompUnit =
  unit_functions :: "FuncDef list"

text \<open>A call site: \<open>FuncRParams\<close> and \<open>FunctionCall\<close> both hold the reference \<open>funcname\<close>.\<close>

record FuncRef =
  func_ref :: "FuncDef option"
  func_refText :: jsstring

record FuncRParams =
  rp_funcname :: FuncRef
  rp_funcRparams :: "Exp list"
  rp_range :: Range
  rp_container :: "Range option"

record FunctionCall =
  fc_funcname :: FuncRef
  fc_range :: Range

text \<open>
  A definition inside a declaration. \<open>index\<close> holds the dimension expressions, of which
  \<open>hoverTipsArray\<close> reads the property \<open>value\<close> (absent unless the expression is a
  literal); \<open>Init\<close> holds the initialisers, each with the lists \<open>singleInit\<close> (the
  source texts of its expressions) and \<open>manyInit\<close>.
\<close>

record IndexExp =
  index_value :: "jsstring option"

record InitVal =
  init_singleInit :: "jsstring option list"
  init_manyInit :: "Exp list"

record VarDef =
  def_name :: jsstring
  def_index :: "IndexExp list"
  def_Init :: "InitVal list"
  def_range :: Range

record Decl =
  decl_defs :: "VarDef list"

datatype VarTarget = TargetParam FuncFParam | TargetConstDef "jsstring option" | TargetVarDef "jsstring option"

record VariableLVal =
  lv_ref :: "VarTarget option"
  lv_refText :: jsstring
  lv_range :: Range

section \<open>Declaration checks: \<open>DeclValidator\<close>\<close>

text \<open>
  The two uniqueness checks each work with a set of the names seen so far, created by
  \<open>new Set()\<close> at the start of the call. To speak about what one run leaves behind
  for the next, the two sets are kept in a record that every call receives as the last
  call left it and returns as it leaves it.
\<close>

record WorkingSets =
  ws_reported :: "jsstring set"
  ws_funcNames :: "jsstring set"

text \<open>
  \<open>checkUniqueDef\<close>: the set \<open>reported\<close> starts empty and is threaded through the
  \<open>forEach\<close>; every name is added, reported or not.
\<close>

definition duplicateDeclaration :: "VarDef \<Rightarrow> Accepted" where
  "duplicateDeclaration d =
     \<lparr>acc_severity = Sev_error,
      acc_message = safeMessage ([26080, 27861, 37325, 26032, 22768, 26126, 22359, 33539, 22260,
        21464, 37327, 32, 39] @ def_name d @ [39, 12290]),
      acc_node = def_range d, acc_property = Some ''name'', acc_code = Some DUPLICATE_DECLARATION,
      acc_data = Some ((diagnosticData
        ([21516, 19968, 20316, 29992, 22495, 20869, 19981, 33021, 37325, 22797, 22768, 26126,
      21516, 21517, 21464, 37327])
        ([20351, 29992, 19981, 21516, 30340, 21464, 37327, 21517, 25110, 31227, 38500, 37325,
      22797, 30340, 22768, 26126]) VARIABLE)
        \<lparr>data_variableName := Some (def_name d)\<rparr>)\<rparr>"

fun checkUniqueDef_loop :: "VarDef list \<Rightarrow> WorkingSets \<Rightarrow> Accepted list \<times> WorkingSets" where
  "checkUniqueDef_loop [] ws = ([], ws)"
| "checkUniqueDef_loop (d # ds) ws =
     (let (accepted, ws') =
            checkUniqueDef_loop ds (ws\<lparr>ws_reported := insert (def_name d)
              (ws_reported ws)\<rparr>)
      in ((if def_name d \<in> ws_reported ws then [duplicateDeclaration d] else [])
        @ accepted, ws'))"

definition checkUniqueDef :: "Decl \<Rightarrow> WorkingSets \<Rightarrow> Accepted list \<times> WorkingSets" where
  "checkUniqueDef constDecl ws =
     checkUniqueDef_loop (decl_defs constDecl) (ws\<lparr>ws_reported := {}\<rparr>)"

text \<open>
  \<open>hoverTipsArray\<close>: \<open>arr.Init[0].manyInit\<close> is read without a check, so a definition
  with a dimension and no initialiser raises a \<open>TypeError\<close>. A comparison with \<open>NaN\<close>
  is false.
\<close>

definition arraySizeOverflow :: "VarDef \<Rightarrow> int \<Rightarrow> nat \<Rightarrow> Accepted" where
  "arraySizeOverflow arr lengthInt n =
     \<lparr>acc_severity = Sev_error,
      acc_message = safeMessage ([25968, 32452, 32] @ def_name arr @ js '' '' @ [30340, 21021,
        22987, 21270, 20803, 32032, 25968, 37327, 36229, 36807, 20102,
      25968, 32452, 22823, 23567, 12290]),
      acc_node = def_range arr, acc_property = Some ''Init'', acc_code = Some ARRAY_SIZE_OVERFLOW,
      acc_data = Some ((diagnosticData
        ([25968, 32452, 20803, 32032, 25968, 37327, 36229, 36807, 20102, 22768, 26126, 30340,
      22823, 23567])
        ([22686, 22823, 25968, 32452, 22823, 23567, 25110, 20943, 23569, 21021, 22987, 21270,
      20803, 32032, 30340, 25968, 37327]) ARRAY)
        \<lparr>data_arrayName := Some (def_name arr), data_declaredSize := Some lengthInt,
         data_actualSize := Some n\<rparr>)\<rparr>"

definition hoverTipsArray :: "VarDef \<Rightarrow> js_error + Accepted list" where
  "hoverTipsArray arr =
     (case def_index arr of
        [] \<Rightarrow> Inr []
      | i # _ \<Rightarrow>
          (case def_Init arr of
             [] \<Rightarrow> Inl TypeError
           | init # _ \<Rightarrow>
               (case (case index_value i of None \<Rightarrow> None | Some len \<Rightarrow> parseInt len) of
                  None \<Rightarrow> Inr []
                | Some lengthInt \<Rightarrow>
                    if int (length (init_manyInit init)) > lengthInt
                    then Inr [arraySizeOverflow arr lengthInt (length (init_manyInit init))]
                    else Inr [])))"

text \<open>\<open>hoverTipsLval\<close> and \<open>checkVariableDeclared\<close>.\<close>

definition js_undefined :: jsstring where
  "js_undefined = js ''undefined''"

definition hint :: "jsstring \<Rightarrow> Range \<Rightarrow> Accepted" where
  "hint text r =
     \<lparr>acc_severity = Sev_hint, acc_message = text, acc_node = r, acc_property = None, acc_code = None,
      acc_data = None\<rparr>"

definition hoverTipsLval :: "VariableLVal \<Rightarrow> Accepted list" where
  "hoverTipsLval lval =
     (case lv_ref lval of
        Some (TargetParam ref) \<Rightarrow>
          [hint (js ''('' @ [21442, 25968] @ js '') '' @ lv_refText lval @ js '': ''
            @ param_btype ref @ [12290]) (lv_range lval)]
      | Some (TargetConstDef text) \<Rightarrow>
          [hint (case text of Some t \<Rightarrow> t | None \<Rightarrow> js_undefined)
            (lv_range lval)]
      | Some (TargetVarDef text) \<Rightarrow>
          [hint (case text of Some t \<Rightarrow> t | None \<Rightarrow> js_undefined)
            (lv_range lval)]
      | None \<Rightarrow> [])"

definition checkVariableDeclared :: "VariableLVal \<Rightarrow> Accepted list" where
  "checkVariableDeclared lval =
     (case lv_ref lval of
        None \<Rightarrow>
          [\<lparr>acc_severity = Sev_error,
            acc_message = safeMessage ([20351, 29992, 20102, 26410, 23450, 20041, 30340, 21464,
              37327, 32, 39] @ lv_refText lval @ [39, 12290]),
            acc_node = lv_range lval, acc_property = Some ''value'', acc_code = Some UNDEFINED_VARIABLE,
            acc_data = Some ((diagnosticData
              ([21464, 37327, 22312, 20351, 29992, 21069, 38656, 35201, 20808, 23450, 20041])
              ([35831, 20808, 22768, 26126, 35813, 21464, 37327, 65292, 20363, 22914, 65306, 39] @
      js ''int '' @ lv_refText lval @ js '' = 0;'' @ [39]) VARIABLE)
              \<lparr>data_variableName := Some (lv_refText lval)\<rparr>)\<rparr>]
      | Some ref \<Rightarrow> [])"

section \<open>Function checks: \<open>FuncValidator\<close>\<close>

text \<open>
  \<open>hoverTipsFunc\<close>: the texts of the declared parameters are joined (an absent text
  joins as the empty text); an unresolved reference prints as \<open>undefined\<close>.
\<close>

definition declaredParamTexts :: "FuncRef \<Rightarrow> jsstring option list" where
  "declaredParamTexts r =
     (case func_ref r of None \<Rightarrow> [] | Some f \<Rightarrow> map param_text (func_funcFparam f))"

definition hoverTipsFunc :: "FuncRParams \<Rightarrow> Accepted list" where
  "hoverTipsFunc e =
     [hint (js ''('' @ [26041, 27861] @ js '') (''
       @ js_join (map (\<lambda>t. case t of Some x \<Rightarrow> x | None \<Rightarrow> [])
       (declaredParamTexts (rp_funcname e))) (js '', '') @ js ''): ''
       @ (case func_ref (rp_funcname e)
       of Some f \<Rightarrow> func_functype f | None \<Rightarrow> js_undefined) @ [12290])
        (rp_range e)]"

definition checkFunctionDeclared :: "FunctionCall \<Rightarrow> Accepted list" where
  "checkFunctionDeclared funcCall =
     (case func_ref (fc_funcname funcCall) of
        None \<Rightarrow>
          [\<lparr>acc_severity = Sev_error,
            acc_message = safeMessage ([35843, 29992, 20102, 26410, 23450, 20041, 30340, 20989,
              25968, 32, 39] @ func_refText (fc_funcname funcCall) @ [39, 12290]),
            acc_node = fc_range funcCall, acc_property = Some ''funcname'',
            acc_code = Some UNDEFINED_FUNCTION,
            acc_data = Some ((diagnosticData
              ([20989, 25968, 22312, 35843, 29992, 21069, 38656, 35201, 20808, 23450, 20041])
              ([35831, 20808, 23450, 20041, 35813, 20989, 25968, 65292, 20363, 22914, 65306, 39] @
      js ''int '' @ func_refText (fc_funcname funcCall) @ js ''() { return 0; }'' @ [39])
              FUNCTION)
              \<lparr>data_functionName := Some (func_refText (fc_funcname funcCall))\<rparr>)\<rparr>]
      | Some f \<Rightarrow> [])"

text \<open>\<open>checkUniqueFuncName\<close>: a name is added to \<open>funcNames\<close> only when it is new.\<close>

definition duplicateFunction :: "FuncDef \<Rightarrow> Accepted" where
  "duplicateFunction func =
     \<lparr>acc_severity = Sev_error,
      acc_message = safeMessage ([20989, 25968, 21517, 32, 39] @ func_name func @ [39, 32, 24050,
        32463, 23450, 20041, 36807, 12290]),
      acc_node = func_range func, acc_property = Some ''name'', acc_code = Some DUPLICATE_FUNCTION,
      acc_data = Some ((diagnosticData
        ([21516, 19968, 20316, 29992, 22495, 20869, 19981, 33021, 37325, 22797, 23450, 20041,
      21516, 21517, 20989, 25968])
        ([20351, 29992, 19981, 21516, 30340, 20989, 25968, 21517, 25110, 31227, 38500, 37325,
      22797, 30340, 23450, 20041]) FUNCTION)
        \<lparr>data_functionName := Some (func_name func)\<rparr>)\<rparr>"

fun checkUniqueFuncName_loop :: "FuncDef list \<Rightarrow> WorkingSets \<Rightarrow> Accepted list \<times> WorkingSets" where
  "checkUniqueFuncName_loop [] ws = ([], ws)"
| "checkUniqueFuncName_loop (func # funcs) ws =
     (if func_name func \<in> ws_funcNames ws
      then (let (accepted, ws') = checkUniqueFuncName_loop funcs ws
            in (duplicateFunction func # accepted, ws'))
      else checkUniqueFuncName_loop funcs
             (ws\<lparr>ws_funcNames := insert (func_name func) (ws_funcNames ws)\<rparr>))"

definition checkUniqueFuncName :: "CompUnit \<Rightarrow> WorkingSets \<Rightarrow> Accepted list \<times> WorkingSets" where
  "checkUniqueFuncName compUnit ws =
     checkUniqueFuncName_loop (unit_functions compUnit) (ws\<lparr>ws_funcNames := {}\<rparr>)"

text \<open>
  \<open>checkStatementsInBlock\<close>: the recursive walk with the flag \<open>inLoop\<close>. A block without
  \<open>blockItems\<close> is left at once. \<open>checkItems\<close> is the \<open>for\<close> loop over the items and
  \<open>checkStatement\<close> the \<open>switch\<close> on the type of one statement.
\<close>

definition invalidBreak :: "node \<Rightarrow> Accepted" where
  "invalidBreak stmt =
     \<lparr>acc_severity = Sev_error,
      acc_message = safeMessage ([39] @ js ''break'' @ [39, 32, 35821, 21477, 21482, 33021, 22312,
        24490, 29615, 20013,
      20351, 29992, 12290]),
      acc_node = nrange stmt, acc_property = None, acc_code = Some INVALID_BREAK_CONTINUE,
      acc_data = Some (diagnosticData
        (js ''break'' @ [35821, 21477, 21482, 33021, 20986, 29616, 22312] @ js ''while'' @ [24490,
      29615, 20013])
        ([31227, 38500] @ js ''break'' @ [35821, 21477, 25110, 23558, 20854, 25918, 22312, 24490,
      29615, 20869]) CONTROL)\<rparr>"

definition invalidContinue :: "node \<Rightarrow> Accepted" where
  "invalidContinue stmt =
     \<lparr>acc_severity = Sev_error,
      acc_message = safeMessage ([39] @ js ''continue'' @ [39, 32, 35821, 21477, 21482, 33021,
        22312, 24490, 29615, 20013,
      20351, 29992, 12290]),
      acc_node = nrange stmt, acc_property = None, acc_code = Some INVALID_BREAK_CONTINUE,
      acc_data = Some (diagnosticData
        (js ''continue'' @ [35821, 21477, 21482, 33021, 20986, 29616, 22312] @ js ''while'' @
      [24490, 29615, 20013])
        ([31227, 38500] @ js ''continue'' @ [35821, 21477, 25110, 23558, 20854, 25918, 22312,
      24490, 29615, 20869]) CONTROL)\<rparr>"

function checkStatementsInBlock :: "node option \<Rightarrow> bool \<Rightarrow> Accepted list"
  and checkItems :: "blockItem list \<Rightarrow> bool \<Rightarrow> Accepted list"
  and checkStatement :: "node \<Rightarrow> bool \<Rightarrow> Accepted list" where
  "checkStatementsInBlock None inLoop = []"
| "checkStatementsInBlock (Some (Node t r None w i e v)) inLoop = []"
| "checkStatementsInBlock (Some (Node t r (Some items) w i e v)) inLoop = checkItems items inLoop"
| "checkItems [] inLoop = []"
| "checkItems (BlockItem None # items) inLoop = checkItems items inLoop"
| "checkItems (BlockItem (Some stmt) # items) inLoop =
     checkStatement stmt inLoop @ checkItems items inLoop"
| "checkStatement (Node t r b w i e v) inLoop =
     (if t = ''Stmtbreak'' then (if \<not> inLoop then [invalidBreak (Node t r b w i e v)]
       else [])
      else if t = ''Stmtcontinue''
        then (if \<not> inLoop then [invalidContinue (Node t r b w i e v)] else [])
      else if t = ''Stmtwhile'' then checkStatementsInBlock w True
      else if t = ''Stmtelif''
        then checkStatementsInBlock i inLoop
             @ (case e of None \<Rightarrow> [] | Some els \<Rightarrow> checkStatementsInBlock (Some els) inLoop)
      else (case b of
              None \<Rightarrow> []
            | Some items \<Rightarrow> checkStatementsInBlock (Some (Node t r (Some items)
              w i e v)) inLoop))"
  by pat_completeness auto
termination
  by (relation "measure (\<lambda>x. case x of
        Inl (b, _) \<Rightarrow> (case b of None \<Rightarrow> 0 | Some n \<Rightarrow> 2 * size n + 1)
      | Inr (Inl (items, _)) \<Rightarrow> 2 * size_list size items
      | Inr (Inr (n, _)) \<Rightarrow> 2 * size n + 2)")
    (auto split: option.splits)

text \<open>
  \<open>checkBreakContinueInNonLoopBlocks\<close>. The sources hold the class \<open>FuncValidator\<close>
  twice, and the two copies differ in this method only. In one copy
  (\<open>example-loader.js\<close>, lines 508 to 513) it starts the walk on the block of the
  function with \<open>inLoop\<close> false. In the other copy (lines 244 to 250) its body holds
  two comments and no statement, and \<open>checkStatementsInBlock\<close> is absent from the
  class: nothing is walked and the acceptor is never called. The sources do not say
  which copy the service \<open>validation.FuncValidator\<close> is made of.
\<close>

definition checkBreakContinueInNonLoopBlocks :: "FuncDef \<Rightarrow> Accepted list" where
  "checkBreakContinueInNonLoopBlocks funcDef = checkStatementsInBlock (Some (func_block funcDef)) False"


text \<open>
  \<open>checkFunctionParameterMismatch\<close>: the declared parameters are collected from the
  resolved function; without one the collected array stays empty.
\<close>

definition checkFunctionParameterMismatch :: "FuncRParams \<Rightarrow> Accepted list" where
  "checkFunctionParameterMismatch func =
     (let declaredParamArray = declaredParamTexts (rp_funcname func);
          callParamArray = rp_funcRparams func
      in if length declaredParamArray \<noteq> length callParamArray
         then [\<lparr>acc_severity = Sev_error,
                acc_message = safeMessage ([21442, 25968, 20010, 25968, 19981, 21305, 37197,
                  12290, 39044, 26399, 32] @ digits_of (length declaredParamArray) @ js '' ''
                  @ [20010, 21442, 25968, 65292, 20294, 23454, 38469, 35843, 29992, 26102, 20256,
      36882, 20102, 32] @ digits_of (length callParamArray) @ js '' '' @ [20010, 21442, 25968,
        12290]),
                acc_node = rp_range func, acc_property = Some ''funcRparams'',
                acc_code = Some PARAMETER_MISMATCH,
                acc_data = Some ((diagnosticData
                  ([20989, 25968, 35843, 29992, 26102, 21442, 25968, 25968, 37327, 24517, 39035,
                    19982,
      20989, 25968, 23450, 20041, 21305, 37197])
                  (if length callParamArray > length declaredParamArray
                   then [20943, 23569, 21442, 25968, 25968, 37327] else [22686, 21152, 32570,
                     23569, 30340, 21442, 25968])
                  FUNCTION)
                  \<lparr>data_functionName := Some (func_refText (rp_funcname func)),
                   data_expectedCount := Some (length declaredParamArray),
                   data_actualCount := Some (length callParamArray)\<rparr>)\<rparr>]
         else [])"

text \<open>
  \<open>checkFunctionReturnType\<close>: the \<open>forEach\<close> over the items of the function's own block
  overwrites \<open>actuallReturnType\<close> at every return statement it meets, so the last one
  stays. The variable starts as \<open>null\<close>; \<open>tobereturn\<close> of \<open>return;\<close> is \<open>undefined\<close>.
\<close>

datatype ReturnSlot = Null | Undefined | Returned Exp

fun scanReturns :: "blockItem list \<Rightarrow> bool \<times> ReturnSlot \<Rightarrow> bool \<times> ReturnSlot" where
  "scanReturns [] state = state"
| "scanReturns (BlockItem None # items) state = scanReturns items state"
| "scanReturns (BlockItem (Some stmt) # items) state =
     scanReturns items
       (if ntype stmt = ''Stmtreturn''
        then (True, case tobereturn stmt of None \<Rightarrow> Undefined | Some x \<Rightarrow> Returned x)
        else state)"

definition missingReturn :: "FuncDef \<Rightarrow> Accepted" where
  "missingReturn func =
     \<lparr>acc_severity = Sev_error,
      acc_message = safeMessage ([26377, 36820, 22238, 20540] @ js '': '' @ func_functype func
        @ js '' '' @ [30340, 20989, 25968, 32570, 23569] @ js '' return '' @ [35821, 21477,
        12290]),
      acc_node = func_range func, acc_property = Some ''functype'', acc_code = Some MISSING_RETURN,
      acc_data = Some ((diagnosticData
        ([26377, 36820, 22238, 20540, 30340, 20989, 25968, 24517, 39035, 21253, 21547] @
      js ''return'' @ [35821, 21477])
        ([28155, 21152, 32, 39] @ js ''return <'' @ func_functype func @ [31867, 22411, 30340,
          20540] @ js ''>;'' @ [39, 32, 35821, 21477]) FUNCTION)
        \<lparr>data_returnType := Some (func_functype func), data_functionName := Some (func_name func)\<rparr>)\<rparr>"

definition emptyReturn :: "FuncDef \<Rightarrow> Accepted" where
  "emptyReturn func =
     \<lparr>acc_severity = Sev_error,
      acc_message = safeMessage ([26377, 36820, 22238, 20540] @ js '': '' @ func_functype func
        @ js '' '' @ [30340, 20989, 25968, 19981, 24212, 36820, 22238, 20026, 31354, 12290]),
      acc_node = nrange (func_block func), acc_property = None, acc_code = Some EMPTY_RETURN,
      acc_data = Some ((diagnosticData
        ([26377, 36820, 22238, 20540, 30340, 20989, 25968, 24517, 39035, 22312] @ js ''return'' @
      [35821, 21477, 20013, 25552, 20379, 19968, 20010, 20540])
        ([23558, 32, 39] @ js ''return;'' @ [39, 32, 25913, 20026, 32, 39] @ js ''return <''
          @ func_functype func @ [31867, 22411, 30340, 20540] @ js ''>;'' @ [39]) FUNCTION)
        \<lparr>data_returnType := Some (func_functype func), data_functionName := Some (func_name func)\<rparr>)\<rparr>"

definition voidReturnValue :: "FuncDef \<Rightarrow> Accepted" where
  "voidReturnValue func =
     \<lparr>acc_severity = Sev_error,
      acc_message = safeMessage (js ''void '' @ [20989, 25968, 19981, 24212, 23384, 22312, 38750,
        31354, 36820, 22238,
      20540, 12290]),
      acc_node = nrange (func_block func), acc_property = None, acc_code = Some VOID_RETURN_VALUE,
      acc_data = Some ((diagnosticData
        (js ''void'' @ [31867, 22411, 30340, 20989, 25968, 19981, 24212, 35813, 26377, 36820,
      22238, 20540])
        ([31227, 38500] @ js ''return'' @ [35821, 21477, 20013, 30340, 34920, 36798, 24335, 25110,
      20351, 29992, 39] @ js ''return;'' @ [39]) FUNCTION)
        \<lparr>data_functionName := Some (func_name func)\<rparr>)\<rparr>"

definition checkFunctionReturnType :: "FuncDef \<Rightarrow> Accepted list" where
  "checkFunctionReturnType func =
     (let returnType = func_functype func;
          (hasReturn, actuallReturnType) =
             (case blockItems (func_block func) of
                None \<Rightarrow> (False, Null)
              | Some items \<Rightarrow> scanReturns items (False, Null))
      in if \<not> hasReturn \<and> returnType \<noteq> js ''void'' then [missingReturn func]
         else if hasReturn \<and> returnType \<noteq> js ''void'' \<and> actuallReturnType = Undefined
           then [emptyReturn func]
         else if hasReturn \<and> returnType = js ''void'' \<and> actuallReturnType \<noteq> Undefined
           then [voidReturnValue func]
         else [])"

text \<open>
  \<open>checkDefTypeMatchFuncReturnType\<close>: the diagnostic is put on the node that contains
  the call, which the non-null assertion of the source takes to exist.
\<close>

definition checkDefTypeMatchFuncReturnType :: "FuncRParams \<Rightarrow> js_error + Accepted list" where
  "checkDefTypeMatchFuncReturnType funcFparam =
     (case func_ref (rp_funcname funcFparam) of
        None \<Rightarrow> Inr []
      | Some f \<Rightarrow>
          if func_functype f = js ''void''
          then (case rp_container funcFparam of
                  None \<Rightarrow> Inl TypeError
                | Some r \<Rightarrow>
                    Inr [\<lparr>acc_severity = Sev_error,
                          acc_message = safeMessage ([19981, 33021, 23558] @ js ''void'' @ [31867,
                            22411, 21464, 37327, 21442, 19982, 36816,
      31639, 25110, 29992, 20110, 36171, 20540]),
                          acc_node = r, acc_property = None, acc_code = Some VOID_ASSIGNMENT,
                          acc_data = Some (diagnosticData
                            (js ''void'' @ [31867, 22411, 30340, 20989, 25968, 36820, 22238,
                              20540, 19981, 33021,
      29992, 20110, 36171, 20540, 25110, 21442, 19982, 36816, 31639])
                            ([20351, 29992, 26377, 36820, 22238, 20540, 30340, 20989, 25968,
                              25110, 19981, 23558,
      32467, 26524, 29992, 20110, 36171, 20540]) TYPE_CAT)\<rparr>])
          else Inr [])"

section \<open>The validation pass\<close>

text \<open>
  \<open>registerValidationChecks\<close> binds the checks to node types. The framework visits the
  nodes of the tree one after the other and calls, for each, the checks registered for
  its type, in the order of registration. The traversal belongs to the framework: the
  pass takes the nodes in the order they are visited. Its result keeps the outcome of
  every check call, the accepted diagnostics or the exception raised, in call order.
  For a function definition the pass runs the copy of the break-and-continue check
  that is implemented; with the other copy the first of its two entries is the empty
  list.
\<close>

datatype AstNode =
  N_Decl Decl | N_VarDef VarDef | N_VariableLVal VariableLVal | N_FuncRParams FuncRParams
| N_FunctionCall FunctionCall | N_CompUnit CompUnit | N_FuncDef FuncDef | N_Other

fun runChecks :: "AstNode \<Rightarrow> WorkingSets \<Rightarrow> (js_error + Accepted list)
  list \<times> WorkingSets" where
  "runChecks (N_Decl d) ws = (let (a, ws') = checkUniqueDef d ws in ([Inr a], ws'))"
| "runChecks (N_VarDef v) ws = ([hoverTipsArray v], ws)"
| "runChecks (N_VariableLVal l) ws = ([Inr (hoverTipsLval l), Inr (checkVariableDeclared l)], ws)"
| "runChecks (N_FuncRParams p) ws =
     ([Inr (hoverTipsFunc p), Inr (checkFunctionParameterMismatch p),
       checkDefTypeMatchFuncReturnType p], ws)"
| "runChecks (N_FunctionCall c) ws = ([Inr (checkFunctionDeclared c)], ws)"
| "runChecks (N_CompUnit u) ws = (let (a, ws') = checkUniqueFuncName u ws in ([Inr a], ws'))"
| "runChecks (N_FuncDef f) ws =
     ([Inr (checkBreakContinueInNonLoopBlocks f), Inr (checkFunctionReturnType f)], ws)"
| "runChecks N_Other ws = ([], ws)"

fun validate :: "AstNode list \<Rightarrow> WorkingSets \<Rightarrow> (js_error + Accepted list)
  list \<times> WorkingSets" where
  "validate [] ws = ([], ws)"
| "validate (n # ns) ws =
     (let (r, ws') = runChecks n ws; (rs, ws'') = validate ns ws' in (r @ rs, ws''))"

section \<open>Building syntax trees\<close>

text \<open>
  The nodes the parser builds for the statements of the language, used to write down
  concrete programs. Source ranges are irrelevant to the checks; \<open>at n\<close> stands for
  the range of a node on line \<open>n\<close>.
\<close>

definition at :: "nat \<Rightarrow> Range" where
  "at n = Range (Position n 0) (Position n 1)"

definition stmt_break :: "Range \<Rightarrow> node" where
  "stmt_break r = Node ''Stmtbreak'' r None None None None None"

definition stmt_continue :: "Range \<Rightarrow> node" where
  "stmt_continue r = Node ''Stmtcontinue'' r None None None None None"

definition stmt_return :: "Range \<Rightarrow> Exp option \<Rightarrow> node" where
  "stmt_return r value = Node ''Stmtreturn'' r None None None None value"

definition stmt_assign :: "Range \<Rightarrow> node" where
  "stmt_assign r = Node ''Stmtassign'' r None None None None None"

definition block_of :: "Range \<Rightarrow> node list \<Rightarrow> node" where
  "block_of r stmts = Node ''Block'' r (Some (map (\<lambda>s. BlockItem (Some s))
    stmts)) None None None None"

definition stmt_while :: "Range \<Rightarrow> node \<Rightarrow> node" where
  "stmt_while r body = Node ''Stmtwhile'' r None (Some body) None None None"

definition stmt_if :: "Range \<Rightarrow> node \<Rightarrow> node option \<Rightarrow> node" where
  "stmt_if r thn els = Node ''Stmtelif'' r None None (Some thn) els None"

lemmas stmt_defs =
  at_def stmt_break_def stmt_continue_def stmt_return_def stmt_assign_def block_of_def
  stmt_while_def stmt_if_def

text \<open>The top-level statement list a function body holds, and its return statements.\<close>

definition body_items :: "FuncDef \<Rightarrow> blockItem list" where
  "body_items func = (case blockItems (func_block func)
    of None \<Rightarrow> [] | Some items \<Rightarrow> items)"

fun top_level_returns :: "blockItem list \<Rightarrow> Exp option list" where
  "top_level_returns [] = []"
| "top_level_returns (BlockItem None # items) = top_level_returns items"
| "top_level_returns (BlockItem (Some stmt) # items) =
     (if ntype stmt = ''Stmtreturn'' then [tobereturn stmt] else []) @ top_level_returns items"




section \<open>Code actions: data\<close>

datatype DiagCode = CodeString jsstring | CodeNumber int | CodeObject "jsstring option"

record Diagnostic =
  diag_range :: Range
  diag_message :: jsstring
  diag_code :: "DiagCode option"

record TextEdit =
  edit_range :: Range
  newText :: jsstring

datatype Argument = ArgString jsstring | ArgRange Range | ArgNumber nat

record Command =
  cmd_title :: jsstring
  cmd_command :: string
  cmd_arguments :: "Argument list"

datatype CodeActionKind = QuickFix | RefactorExtract

text \<open>
  A code action. \<open>ca_edit\<close> is the object \<open>changes\<close> of a workspace edit, the list of
  pairs of a document URI and the edits to that document.
\<close>

record CodeAction =
  ca_title :: jsstring
  ca_kind :: CodeActionKind
  ca_diagnostics :: "Diagnostic list option"
  ca_edit :: "(jsstring \<times> TextEdit list) list option"
  ca_command :: "Command option"

section \<open>The text document\<close>

text \<open>
  The document a resolver reads is the text document of the language-server library.
  Its lines end at \<open>\n\<close>, \<open>\r\<close> or \<open>\r\n\<close>; \<open>lineOffsets\<close> lists the offsets at which the
  lines start. \<open>offsetAt\<close> answers the end of the text for a line beyond the last one and
  does not step beyond the start of the next line.
\<close>

record Document =
  doc_uri :: jsstring
  doc_text :: jsstring

fun line_starts :: "jsstring \<Rightarrow> nat \<Rightarrow> nat list" where
  "line_starts [] i = []"
| "line_starts [c] i = (if c = 13 \<or> c = 10 then [Suc i] else [])"
| "line_starts (c # d # s) i =
     (if c = 13 \<and> d = 10 then (i + 2) # line_starts s (i + 2)
      else if c = 13 \<or> c = 10 then Suc i # line_starts (d # s) (Suc i)
      else line_starts (d # s) (Suc i))"

definition lineOffsets :: "jsstring \<Rightarrow> nat list" where
  "lineOffsets text = 0 # line_starts text 0"

definition lineCount :: "Document \<Rightarrow> nat" where
  "lineCount document = length (lineOffsets (doc_text document))"

definition offsetAt :: "Document \<Rightarrow> Position \<Rightarrow> nat" where
  "offsetAt document position =
     (let text = doc_text document; offsets = lineOffsets text in
      if pos_line position \<ge> length offsets then length text
      else let lineOffset = offsets ! pos_line position;
               nextLineOffset =
                 (if pos_line position + 1 < length offsets
                  then offsets ! (pos_line position + 1) else length text)
           in min (lineOffset + pos_character position) nextLineOffset)"

definition getText :: "Document \<Rightarrow> Range \<Rightarrow> jsstring" where
  "getText document r =
     js_substring (doc_text document) (offsetAt document (range_start r))
       (offsetAt document (range_end r))"

text \<open>The range of a whole line, from its start to the start of the next line.\<close>

definition lineRange :: "nat \<Rightarrow> Range" where
  "lineRange l = Range (Position l 0) (Position (l + 1) 0)"

definition emptyRange :: "nat \<Rightarrow> nat \<Rightarrow> Range" where
  "emptyRange l c = Range (Position l c) (Position l c)"

definition startLine :: "Diagnostic \<Rightarrow> nat" where
  "startLine diagnostic = pos_line (range_start (diag_range diagnostic))"

section \<open>Resolvers\<close>

text \<open>
  A resolver maps a diagnostic and the document to an exception, to \<open>undefined\<close>
  (\<open>None\<close>) or to a code action.
\<close>

type_synonym Resolver = "Diagnostic \<Rightarrow> Document \<Rightarrow> js_error + CodeAction option"

text \<open>The two shapes of object the resolvers return.\<close>

definition editAction :: "jsstring \<Rightarrow> Diagnostic \<Rightarrow> Document \<Rightarrow> Range \<Rightarrow> jsstring \<Rightarrow> CodeAction" where
  "editAction title diagnostic document r text =
     \<lparr>ca_title = title, ca_kind = QuickFix, ca_diagnostics = Some [diagnostic],
      ca_edit = Some [(doc_uri document, [\<lparr>edit_range = r, newText = text\<rparr>])],
      ca_command = None\<rparr>"

definition commandAction ::
  "jsstring \<Rightarrow> Diagnostic \<Rightarrow> jsstring \<Rightarrow> string \<Rightarrow> Argument list \<Rightarrow> CodeAction" where
  "commandAction title diagnostic commandTitle name arguments =
     \<lparr>ca_title = title, ca_kind = QuickFix, ca_diagnostics = Some [diagnostic],
      ca_edit = None,
      ca_command = Some \<lparr>cmd_title = commandTitle, cmd_command = name,
                          cmd_arguments = arguments\<rparr>\<rparr>"

text \<open>
  The expression of \<open>createUndeclaredVarFix\<close> and \<open>createGlobalVarDeclarationFix\<close>,
  \<open>/A\s*'([^']+)'|B\s*'?([^'\s.]+)'?/\<close>. Whichever alternative matches, the captured
  name is the text of its fourth item, and it is not empty.
\<close>

definition undeclaredVarRegex :: "rx_item list list" where
  "undeclaredVarRegex =
     [[Lit ([26410, 23450, 20041, 30340, 21464,
       37327]), Rep Space 0 None, Lit [39], Rep (Except [Chr 39]) 1 None, Lit [39]],
      [Lit ([26410, 22768, 26126, 30340, 21464,
        37327]), Rep Space 0 None, Rep (Chr 39) 0 (Some 1),
       Rep (Except [Chr 39, Space, Chr 46]) 1 None, Rep (Chr 39) 0 (Some 1)]]"

definition createUndeclaredVarFix :: Resolver where
  "createUndeclaredVarFix diagnostic document =
     (case rx_exec_alts undeclaredVarRegex (diag_message diagnostic) of
        None \<Rightarrow> Inr None
      | Some (_, _, segs) \<Rightarrow>
          (let varName = segs ! 3;
               indentation = replicate (pos_character (range_start (diag_range diagnostic))) 32
           in Inr (Some (editAction ([22768, 26126, 21464, 37327, 32, 39] @ varName @ [39])
             diagnostic document
                 (emptyRange (startLine diagnostic) 0)
                 (js ''int '' @ varName @ js '' = 0;'' @ [10] @ indentation)))))"

definition createGlobalVarDeclarationFix :: Resolver where
  "createGlobalVarDeclarationFix diagnostic document =
     (case rx_exec_alts undeclaredVarRegex (diag_message diagnostic) of
        None \<Rightarrow> Inr None
      | Some (_, _, segs) \<Rightarrow>
          (let varName = segs ! 3
           in Inr (Some (editAction ([22312, 20840, 23616, 20316, 29992, 22495, 22768, 26126,
             21464, 37327, 32, 39] @ varName @ [39]) diagnostic document
                 (emptyRange 0 0) (js ''int '' @ varName @ js '' = 0;'' @ [10, 10])))))"

definition createRenameDuplicateVarFix :: Resolver where
  "createRenameDuplicateVarFix diagnostic document =
     (case rx_exec [Lit ([26080, 27861, 37325, 26032, 22768, 26126, 22359, 33539, 22260, 21464,
       37327]), Rep Space 0 None, Lit [39],
                    Rep (Except [Chr 39]) 1 None, Lit [39]] (diag_message diagnostic) of
        None \<Rightarrow> Inr None
      | Some (_, segs) \<Rightarrow>
          (let newVarName = segs ! 3 @ js ''_new''
           in Inr (Some (editAction ([37325, 21629, 21517, 21464, 37327, 20026, 32, 39]
             @ newVarName @ [39]) diagnostic document
                 (diag_range diagnostic) newVarName))))"

text \<open>
  \<open>createArraySizeOverflowFix\<close>. The name captured from the message is spliced into two
  regular expressions built at run time; the constructor may throw. The declaration
  line is read from the document, the declared size and the initialiser list are
  found in it by regular expressions, and the line is rewritten with the larger of the
  declared size and the number of comma-separated pieces of the list. The group
  \<open>(\d+)\<close> is the last item but one of the expression, whatever the name compiled to.
\<close>

definition createArraySizeOverflowFix :: Resolver where
  "createArraySizeOverflowFix diagnostic document =
     (case rx_exec [Lit ([25968, 32452]), Rep Space 0 None, Rep (Except [Space]) 1 None,
                    Rep Space 0 None, Lit ([30340, 21021, 22987, 21270, 20803, 32032, 25968,
                      37327, 36229, 36807, 20102, 25968,
      32452, 22823, 23567])]
             (diag_message diagnostic) of
        None \<Rightarrow> Inr None
      | Some (_, segs) \<Rightarrow>
          (let arrayName = segs ! 2;
               line = getText document (lineRange (startLine diagnostic))
           in case new_RegExp arrayName
                     [Rep Space 0 None, Lit (js ''[''), Rep Digit 1 None, Lit (js '']'')] of
                Inl e \<Rightarrow> Inl e
              | Inr sizeRegex \<Rightarrow>
                  (case rx_exec sizeRegex line of
                     None \<Rightarrow> Inr None
                   | Some (_, sizeMatch) \<Rightarrow>
                       (case parseCount (sizeMatch ! (length sizeRegex - 2)) of
                          Inl e \<Rightarrow> Inl e
                        | Inr currentSize \<Rightarrow>
                            (case rx_exec [Lit (js ''=''), Rep Space 0 None, Lit (js ''{''),
                                           Rep (Except [Chr 125]) 0 None, Lit (js ''}'')] line of
                               None \<Rightarrow> Inr None
                             | Some (_, initListMatch) \<Rightarrow>
                                 if initListMatch ! 3 = [] then Inr None
                                 else
                                   (let initElements = length (js_split (initListMatch ! 3) 44);
                                        newSize = max currentSize initElements
                                    in case new_RegExp arrayName
                                              [Rep Space 0 None, Lit (js ''[''),
                                               Lit (digits_of currentSize), Lit (js '']'')] of
                                         Inl e \<Rightarrow> Inl e
                                       | Inr replaceRegex \<Rightarrow>
                                           Inr (Some (editAction
                                             ([23558, 25968, 32452, 32, 39] @ arrayName @ [39, 32,
                                               30340, 22823, 23567, 20174, 32]
                                               @ digits_of currentSize @ js '' '' @ [22686, 22823,
                                               21040, 32] @ digits_of newSize)
                                             diagnostic document
                                             (lineRange (startLine diagnostic))
                                             (js_replace replaceRegex line
                                                (arrayName @ js ''['' @ digits_of newSize
                                                   @ js '']''))))))))))"

text \<open>
  \<open>createUndeclaredFuncFix\<close>: the arguments of the call are counted on the line of the
  diagnostic to write a parameter list; the declaration is put after the last line.
\<close>

fun paramDefs :: "nat \<Rightarrow> nat \<Rightarrow> jsstring list" where
  "paramDefs i 0 = []"
| "paramDefs i (Suc n) = (js ''int param'' @ digits_of (i + 1)) # paramDefs (i + 1) n"

definition createUndeclaredFuncFix :: Resolver where
  "createUndeclaredFuncFix diagnostic document =
     (case rx_exec [Lit ([35843, 29992, 20102, 26410, 23450, 20041, 30340, 20989,
       25968]), Rep Space 0 None, Lit [39],
                    Rep (Except [Chr 39]) 1 None, Lit [39]] (diag_message diagnostic) of
        None \<Rightarrow> Inr None
      | Some (_, segs) \<Rightarrow>
          (let funcName = segs ! 3;
               line = getText document (lineRange (startLine diagnostic))
           in case new_RegExp funcName
                     [Rep Space 0 None, Lit (js ''(''), Rep (Except [Chr 41]) 0 None,
                      Lit (js '')'')] of
                Inl e \<Rightarrow> Inl e
              | Inr callRegex \<Rightarrow>
                  (let params =
                         (case rx_exec callRegex line of
                            None \<Rightarrow> []
                          | Some (_, callMatch) \<Rightarrow>
                              filter (\<lambda>p. length p > 0)
                                (map js_trim (js_split (callMatch ! (length callRegex - 2)) 44)))
                   in Inr (Some (editAction ([22768, 26126, 20989, 25968, 32, 39] @ funcName
                     @ [39]) diagnostic document
                         (emptyRange (lineCount document) 0)
                         ([10] @ js ''// '' @ [33258, 21160, 29983, 25104, 30340, 20989, 25968,
                           22768, 26126, 10] @
      js ''int '' @ funcName @ js ''('' @ js_join (paramDefs 0 (length params)) (js '', '')
        @ js '') {'' @ [10] @ js ''    // '' @ [23454, 29616, 20989, 25968, 20307, 10] @
      js ''    return 0;'' @ [10, 125, 10]))))))"

definition createRenameDuplicateFuncFix :: Resolver where
  "createRenameDuplicateFuncFix diagnostic document =
     (case rx_exec [Lit ([20989, 25968,
       21517]), Rep Space 0 None, Lit [39], Rep (Except [Chr 39]) 1 None,
                    Lit [39], Rep Space 0 None, Lit ([24050, 32463, 23450, 20041, 36807])]
                      (diag_message diagnostic) of
        None \<Rightarrow> Inr None
      | Some (_, segs) \<Rightarrow>
          (let newFuncName = segs ! 3 @ js ''_new''
           in Inr (Some (editAction ([37325, 21629, 21517, 20989, 25968, 20026, 32, 39]
             @ newFuncName @ [39]) diagnostic document
                 (diag_range diagnostic) newFuncName))))"

text \<open>
  The expression that reads the two counts from the message of a parameter mismatch;
  the counts are the texts of its third and seventh items.
\<close>

definition parameterMismatchRegex :: "rx_item list" where
  "parameterMismatchRegex =
     [Lit ([21442, 25968, 20010, 25968, 19981, 21305, 37197, 12290, 39044,
       26399]), Rep Space 0 None, Rep Digit 1 None, Rep Space 0 None,
      Lit ([20010, 21442, 25968, 65292, 20294, 23454, 38469, 35843, 29992, 26102, 20256, 36882,
      20102]), Rep Space 0 None, Rep Digit 1 None, Rep Space 0 None,
      Lit ([20010, 21442, 25968])]"

definition createParameterMismatchFix :: Resolver where
  "createParameterMismatchFix diagnostic document =
     (case rx_exec parameterMismatchRegex (diag_message diagnostic) of
        None \<Rightarrow> Inr None
      | Some (_, segs) \<Rightarrow>
          (case parseCount (segs ! 2) of
             Inl e \<Rightarrow> Inl e
           | Inr expectedCount \<Rightarrow>
               (case parseCount (segs ! 6) of
                  Inl e \<Rightarrow> Inl e
                | Inr actualCount \<Rightarrow>
                    Inr (Some (commandAction
                      (if actualCount > expectedCount then [31227, 38500, 22810, 20313, 30340,
                        21442, 25968]
                       else [28155, 21152] @ digits_of (expectedCount - actualCount) @ [20010,
                         32570, 23569, 30340, 21442, 25968])
                      diagnostic ([20462, 22797, 21442, 25968, 25968,
                        37327]) ''sysy.adjustParameters''
                      [ArgString (doc_uri document), ArgRange (diag_range diagnostic),
                       ArgNumber expectedCount])))))"

fun defaultParams :: "nat \<Rightarrow> nat \<Rightarrow> jsstring list" where
  "defaultParams i 0 = []"
| "defaultParams i (Suc n) = (js ''0 /* '' @ [21442, 25968] @ digits_of (i + 1)
  @ js '' */'') # defaultParams (i + 1) n"

definition createAdjustParametersFix :: "Diagnostic \<Rightarrow> Document \<Rightarrow> bool \<Rightarrow> js_error + CodeAction option" where
  "createAdjustParametersFix diagnostic document removingParams =
     (case rx_exec parameterMismatchRegex (diag_message diagnostic) of
        None \<Rightarrow> Inr None
      | Some (_, segs) \<Rightarrow>
          (case parseCount (segs ! 2) of
             Inl e \<Rightarrow> Inl e
           | Inr expectedCount \<Rightarrow>
               (case parseCount (segs ! 6) of
                  Inl e \<Rightarrow> Inl e
                | Inr actualCount \<Rightarrow>
                    (let line = getText document (lineRange (startLine diagnostic)) in
                     case rx_exec [Rep Word 1 None, Rep Space 0 None, Lit (js ''(''),
                                   Rep Dot 0 None, Lit (js '')'')] line of
                       None \<Rightarrow> Inr None
                     | Some (_, callMatch) \<Rightarrow>
                         (let funcName = callMatch ! 0;
                              params = map js_trim (js_split (callMatch ! 3) 44);
                              adjusted =
                                (if removingParams \<and> actualCount > expectedCount
                                 then Some (take expectedCount params,
                                   [23558, 20989, 25968, 32, 39] @ funcName @ [39, 32, 35843,
                                     29992, 21442, 25968, 20943, 23569, 21040, 32]
                                     @ digits_of expectedCount @ js '' '' @ [20010])
                                 else if \<not> removingParams \<and> actualCount < expectedCount
                                 then Some (params @ defaultParams actualCount
                                              (expectedCount - actualCount),
                                   [21521, 20989, 25968, 32, 39] @ funcName @ [39, 32, 35843,
                                     29992, 28155, 21152, 32]
                                     @ digits_of (expectedCount - actualCount) @ js '' ''
                                     @ [20010, 32570, 30465, 21442, 25968])
                                 else None)
                          in case adjusted of
                               None \<Rightarrow> Inr None
                             | Some (newParams, title) \<Rightarrow>
                                 (case js_indexOf line (concat callMatch) of
                                    None \<Rightarrow> Inr None
                                  | Some startIndex \<Rightarrow>
                                      Inr (Some (editAction title diagnostic document
                                        (Range (Position (startLine diagnostic) startIndex)
                                           (Position (startLine diagnostic)
                                              (startIndex + length (concat callMatch))))
                                        (funcName @ js ''('' @ js_join newParams (js '', '')
                                           @ js '')'')))))))))"

definition createInvalidBreakContinueFix :: Resolver where
  "createInvalidBreakContinueFix diagnostic document =
     Inr (Some (editAction ([21024, 38500, 26080, 25928, 30340] @ js '' break/continue ''
       @ [35821, 21477]) diagnostic document
           (lineRange (startLine diagnostic)) (js ''// '' @ [24050, 21024, 38500, 26080, 25928,
             30340] @ js '' break/continue '' @
      [35821, 21477, 10])))"

text \<open>The return type read from a message, \<open>int\<close> when the message does not name one.\<close>

definition returnTypeOf :: "jsstring \<Rightarrow> jsstring \<Rightarrow> jsstring" where
  "returnTypeOf tail message =
     (case rx_exec [Lit ([26377, 36820, 22238, 20540,
       58]), Rep Space 0 None, Rep Word 1 None, Rep Space 0 None,
                    Lit tail] message of
        None \<Rightarrow> js ''int''
      | Some (_, segs) \<Rightarrow> segs ! 2)"

definition defaultReturnValue :: "jsstring \<Rightarrow> jsstring" where
  "defaultReturnValue returnType =
     (if returnType = js ''float'' \<or> returnType = js ''double'' then js ''0.0'' else js ''0'')"

definition createMissingReturnFix :: Resolver where
  "createMissingReturnFix diagnostic document =
     Inr (Some (commandAction ([28155, 21152] @ js '' return '' @ [35821, 21477])
       diagnostic ([28155, 21152] @ js '' return '' @ [35821, 21477])
           ''sysy.addReturnStatement''
           [ArgString (doc_uri document), ArgRange (diag_range diagnostic),
            ArgString (returnTypeOf ([30340, 20989, 25968, 32570, 23569])
              (diag_message diagnostic))]))"

text \<open>
  \<open>createAppendReturnFix\<close>: from the line of the diagnostic on, braces are counted,
  starting at one, until the count reaches zero. \<open>scanLine\<close> is the inner loop over the
  characters of one line and \<open>findEnd\<close> the outer loop over the lines; the indentation
  is then read from the line before the one found, which does not exist when that is
  the first line of the document.
\<close>

fun scanLine :: "jsstring \<Rightarrow> int \<Rightarrow> int \<times> bool" where
  "scanLine [] braceCount = (braceCount, False)"
| "scanLine (char # rest) braceCount =
     (let braceCount' =
            (if char = 123 then braceCount + 1
             else if char = 125 then braceCount - 1 else braceCount)
      in if braceCount' = 0 then (braceCount', True) else scanLine rest braceCount')"

fun findEnd :: "jsstring list \<Rightarrow> nat \<Rightarrow> int \<Rightarrow> nat option" where
  "findEnd [] endLine braceCount = None"
| "findEnd (line # lines) endLine braceCount =
     (if braceCount > 0
      then (case scanLine line braceCount of
              (_, True) \<Rightarrow> Some endLine
            | (braceCount', False) \<Rightarrow> findEnd lines (endLine + 1) braceCount')
      else None)"

definition createAppendReturnFix :: Resolver where
  "createAppendReturnFix diagnostic document =
     (let returnType = returnTypeOf ([30340, 20989, 25968, 32570, 23569])
       (diag_message diagnostic);
          lines = js_split (doc_text document) 10
      in case findEnd (drop (startLine diagnostic) lines) (startLine diagnostic) 1 of
           None \<Rightarrow> Inr None
         | Some endLine \<Rightarrow>
             if endLine = 0 then Inl TypeError
             else
               (let leading = takeWhile is_space (lines ! (endLine - 1));
                    indentation = (if leading = [] then js ''    '' else leading)
                in Inr (Some (editAction
                     ([22312, 20989, 25968, 32467, 23614, 28155, 21152] @ js '' return ''
                       @ defaultReturnValue returnType @ js '';'')
                     diagnostic document (emptyRange endLine 0)
                     (indentation @ js ''return '' @ defaultReturnValue returnType
                        @ js '';'' @ [10])))))"

definition createVoidReturnValueFix :: Resolver where
  "createVoidReturnValueFix diagnostic document =
     (let line = getText document (lineRange (startLine diagnostic)) in
      case rx_exec [Rep Space 0 None, Lit (js ''return''), Rep Space 1 None,
                    Rep (Except [Chr 59]) 1 None, Lit (js '';'')] line of
        None \<Rightarrow> Inr None
      | Some (_, returnMatch) \<Rightarrow>
          Inr (Some (editAction ([31227, 38500] @ js '' void '' @ [20989, 25968, 30340, 36820,
            22238, 20540]) diagnostic document
                (lineRange (startLine diagnostic))
                (returnMatch ! 0 @ js ''return;'' @ [10]))))"

definition createVoidAssignmentFix :: Resolver where
  "createVoidAssignmentFix diagnostic document =
     (let line = getText document (lineRange (startLine diagnostic)) in
      case rx_exec [Rep Space 0 None, Rep (Except [Chr 61]) 1 None, Lit (js ''=''),
                    Rep Space 0 None, Rep (Except [Chr 59]) 1 None, Lit (js '';'')] line of
        None \<Rightarrow> Inr None
      | Some (_, assignmentMatch) \<Rightarrow>
          Inr (Some (editAction ([31227, 38500] @ js '' void '' @ [20989, 25968, 36820, 22238,
            20540, 30340, 20351, 29992]) diagnostic document
                (lineRange (startLine diagnostic))
                (assignmentMatch ! 0 @ js_trim (assignmentMatch ! 4) @ js '';'' @ [10]))))"

definition createTypeMismatchFix :: Resolver where
  "createTypeMismatchFix diagnostic document =
     Inr (Some \<lparr>ca_title = [28155, 21152, 31867, 22411, 36716, 25442], ca_kind = QuickFix,
                ca_diagnostics = Some [diagnostic], ca_edit = Some [], ca_command = None\<rparr>)"

text \<open>
  The three resolvers below wrap their bodies in \<open>try\<close>/\<open>catch\<close> and answer \<open>undefined\<close>
  when the body throws. The texts that \<open>createUnmatchedBracketsFix\<close> and
  \<open>createUnusedVariableFix\<close> read from the document are not used afterwards and are
  left out.
\<close>

definition createMissingSemicolonFix :: Resolver where
  "createMissingSemicolonFix diagnostic document =
     Inr (Some (editAction ([28155, 21152, 32570, 22833, 30340, 20998, 21495]) diagnostic document
           (Range (range_end (diag_range diagnostic)) (range_end (diag_range diagnostic)))
           (js '';'')))"

definition createUnmatchedBracketsFix :: Resolver where
  "createUnmatchedBracketsFix diagnostic document =
     (if js_includes (diag_message diagnostic) ([32570, 23569, 24038, 25324, 21495])
         \<or> js_includes (diag_message diagnostic) ([26410, 25214, 21040, 21305, 37197, 30340,
           24038, 25324, 21495])
      then Inr (Some (editAction ([28155, 21152, 32570, 22833, 30340, 24038, 25324, 21495])
        diagnostic document
             (Range (range_start (diag_range diagnostic)) (range_start (diag_range diagnostic)))
             (js ''('')))
      else Inr (Some (editAction ([28155, 21152, 32570, 22833, 30340, 21491, 25324, 21495])
        diagnostic document
             (Range (range_end (diag_range diagnostic)) (range_end (diag_range diagnostic)))
             (js '')''))))"

text \<open>\<open>getErrorCode\<close>, \<open>getQuickFixType\<close> and \<open>extractContextParams\<close>.\<close>

definition getErrorCode :: "jsstring \<Rightarrow> string option" where
  "getErrorCode message =
     (if message = [] then None
      else if js_includes message ([20351, 29992, 20102, 26410, 23450, 20041, 30340, 21464,
        37327]) \<or> js_includes message ([26410, 22768, 26126, 30340, 21464, 37327])
        then Some UNDEFINED_VARIABLE
      else if js_includes message ([26080, 27861, 37325, 26032, 22768, 26126, 22359, 33539, 22260,
        21464, 37327]) then Some DUPLICATE_DECLARATION
      else if js_includes message ([25968, 32452])
              \<and> js_includes message ([21021, 22987, 21270, 20803, 32032, 25968, 37327, 36229,
                36807, 20102, 25968, 32452,
      22823, 23567])
        then Some ARRAY_SIZE_OVERFLOW
      else if js_includes message ([35843, 29992, 20102, 26410, 23450, 20041, 30340, 20989,
        25968]) then Some UNDEFINED_FUNCTION
      else if js_includes message ([20989, 25968, 21517]) \<and> js_includes message ([24050,
        32463, 23450, 20041, 36807])
        then Some DUPLICATE_FUNCTION
      else if js_includes message ([21442, 25968, 20010, 25968, 19981, 21305, 37197])
        then Some PARAMETER_MISMATCH
      else if js_includes message ([38750, 24490, 29615, 22359, 20013, 20351, 29992, 20102])
        then Some INVALID_BREAK_CONTINUE
      else if js_includes message ([26377, 36820, 22238, 20540, 30340, 20989, 25968, 32570,
        23569]) then Some MISSING_RETURN
      else if js_includes message ([26377, 36820, 22238, 20540, 30340, 20989, 25968, 19981, 24212,
        36820, 22238, 20026,
      31354]) then Some EMPTY_RETURN
      else if js_includes message (js ''void '' @ [20989, 25968, 19981, 24212, 23384, 22312,
        38750, 31354, 36820, 22238,
      20540]) then Some VOID_RETURN_VALUE
      else if js_includes message ([19981, 33021, 23558] @ js ''void'' @ [31867, 22411, 21464,
        37327, 21442, 19982, 36816,
      31639, 25110, 29992, 20110, 36171, 20540])
        then Some VOID_ASSIGNMENT
      else if js_includes message ([31867, 22411, 19981, 21305,
        37197]) \<or> js_includes message ([26080, 27861, 23558, 31867, 22411])
        then Some TYPE_MISMATCH
      else if js_includes message ([32570, 23569, 20998,
        21495]) \<or> js_includes message ([24212, 35813, 26377, 20998, 21495])
        then Some MISSING_SEMICOLON
      else if js_includes message ([25324, 21495, 19981, 21305,
        37197]) \<or> js_includes message ([32570, 23569, 24038, 25324, 21495])
              \<or> js_includes message ([32570, 23569, 21491, 25324,
                21495]) \<or> js_includes message ([25324, 21495, 26410, 38381, 21512])
        then Some UNMATCHED_BRACKETS
      else if js_includes message ([26410, 20351, 29992, 30340, 21464, 37327])
              \<or> js_includes message ([21464, 37327, 24050, 22768, 26126, 20294, 20174, 26410,
                20351, 29992])
        then Some UNUSED_VARIABLE
      else None)"

datatype QuickFixType =
  DECLARATION | DEFINITION | RENAME | REMOVE | CHANGE | ADD | REFACTOR | FIX_SYNTAX

definition getQuickFixType :: "string \<Rightarrow> QuickFixType" where
  "getQuickFixType errorCode =
     (if errorCode = UNDEFINED_VARIABLE \<or> errorCode = UNDEFINED_FUNCTION then DECLARATION
      else if errorCode = DUPLICATE_DECLARATION \<or> errorCode = DUPLICATE_FUNCTION then RENAME
      else if errorCode = ARRAY_SIZE_OVERFLOW then CHANGE
      else if errorCode = PARAMETER_MISMATCH then CHANGE
      else if errorCode = INVALID_BREAK_CONTINUE then REMOVE
      else if errorCode = MISSING_RETURN \<or> errorCode = EMPTY_RETURN then ADD
      else if errorCode = VOID_RETURN_VALUE then REMOVE
      else if errorCode = VOID_ASSIGNMENT then CHANGE
      else if errorCode = TYPE_MISMATCH then CHANGE
      else if errorCode = MISSING_SEMICOLON then FIX_SYNTAX
      else if errorCode = UNMATCHED_BRACKETS then FIX_SYNTAX
      else if errorCode = UNUSED_VARIABLE then REMOVE
      else CHANGE)"

record ContextualQuickFixParams =
  cp_errorCode :: string
  cp_errorType :: QuickFixType
  cp_errorCategory :: ErrorCategory
  cp_variableName :: "jsstring option"
  cp_functionName :: "jsstring option"
  cp_arrayName :: "jsstring option"
  cp_expectedCount :: "nat option"
  cp_actualCount :: "nat option"

definition quotedName :: "jsstring \<Rightarrow> jsstring option" where
  "quotedName message =
     (case rx_exec [Lit [39], Rep (Except [Chr 39]) 1 None, Lit [39]] message of
        None \<Rightarrow> None
      | Some (_, segs) \<Rightarrow> Some (segs ! 1))"

definition extractContextParams ::
  "Diagnostic \<Rightarrow> Document \<Rightarrow> js_error + ContextualQuickFixParams option" where
  "extractContextParams diagnostic document =
     (let message = diag_message diagnostic in
      case getErrorCode message of
        None \<Rightarrow> Inr None
      | Some errorCode \<Rightarrow>
          (case getErrorCategory message of
             Inl e \<Rightarrow> Inl e
           | Inr c \<Rightarrow>
               (let result =
                      \<lparr>cp_errorCode = errorCode, cp_errorType = getQuickFixType errorCode,
                       cp_errorCategory = (case c of Some x \<Rightarrow> x | None \<Rightarrow> OTHER),
                       cp_variableName = None, cp_functionName = None, cp_arrayName = None,
                       cp_expectedCount = None, cp_actualCount = None\<rparr>
                in if js_includes message ([20351, 29992, 20102, 26410, 23450, 20041, 30340,
                  21464, 37327])
                      \<or> js_includes message ([26410, 22768, 26126, 30340, 21464, 37327])
                   then Inr (Some (result\<lparr>cp_variableName := quotedName message\<rparr>))
                   else if js_includes message ([26080, 27861, 37325, 26032, 22768, 26126, 22359,
                     33539, 22260, 21464, 37327])
                   then Inr (Some (result\<lparr>cp_variableName := quotedName message\<rparr>))
                   else if js_includes message ([35843, 29992, 20102, 26410, 23450, 20041, 30340,
                     20989, 25968])
                   then Inr (Some (result\<lparr>cp_functionName := quotedName message\<rparr>))
                   else if js_includes message ([21442, 25968, 20010, 25968, 19981, 21305, 37197])
                   then (case rx_exec [Lit ([26399, 26395, 32]), Rep Digit 1 None,
                                       Lit (js '' '' @ [20010, 21442, 25968, 65292, 20294, 24471,
                                         21040, 20102, 32]), Rep Digit 1 None,
                                       Lit (js '' '' @ [20010])] message of
                           None \<Rightarrow> Inr (Some result)
                         | Some (_, matches) \<Rightarrow>
                             (case parseCount (matches ! 1) of
                                Inl e \<Rightarrow> Inl e
                              | Inr expected \<Rightarrow>
                                  (case parseCount (matches ! 3) of
                                     Inl e \<Rightarrow> Inl e
                                   | Inr actual \<Rightarrow>
                                       Inr (Some (result\<lparr>cp_expectedCount := Some expected,
                                                          cp_actualCount := Some actual\<rparr>)))))
                   else if js_includes message ([25968, 32452])
                           \<and> js_includes message ([21021, 22987, 21270, 20803, 32032, 25968,
                             37327, 36229, 36807, 20102, 25968, 32452,
      22823, 23567])
                   then (case rx_exec [Lit ([25968, 32452, 32]), Rep (Except [Chr 32]) 1 None,
                                       Lit (js '' '' @ [30340, 21021, 22987, 21270, 20803, 32032,
                                         25968, 37327])] message of
                           None \<Rightarrow> Inr (Some result)
                         | Some (_, matches) \<Rightarrow>
                             Inr (Some (result\<lparr>cp_arrayName := Some (matches ! 1)\<rparr>)))
                   else if js_includes message ([26410, 20351, 29992, 30340, 21464, 37327])
                   then Inr (Some (result\<lparr>cp_variableName := quotedName message\<rparr>))
                   else Inr (Some result))))"

definition createUnusedVariableFix :: Resolver where
  "createUnusedVariableFix diagnostic document =
     (case extractContextParams diagnostic document of
        Inl e \<Rightarrow> Inr None
      | Inr None \<Rightarrow> Inr None
      | Inr (Some params) \<Rightarrow>
          (case cp_variableName params of
             None \<Rightarrow> Inr None
           | Some variableName \<Rightarrow>
               Inr (Some (editAction ([21024, 38500, 26410, 20351, 29992, 30340, 21464, 37327, 32,
                 39] @ variableName @ [39]) diagnostic document
                     (lineRange (startLine diagnostic)) []))))"

definition createEmptyReturnFix :: Resolver where
  "createEmptyReturnFix diagnostic document =
     (let returnType = returnTypeOf ([30340, 20989, 25968, 19981, 24212, 36820, 22238, 20026,
       31354]) (diag_message diagnostic);
          line = getText document (lineRange (startLine diagnostic))
      in case rx_exec [Rep Space 0 None, Lit (js ''return''), Rep Space 0 None, Lit (js '';'')]
                line of
           None \<Rightarrow> Inr None
         | Some (_, returnMatch) \<Rightarrow>
             Inr (Some (editAction ([28155, 21152, 36820, 22238, 20540, 32, 39]
               @ defaultReturnValue returnType @ [39])
                   diagnostic document (lineRange (startLine diagnostic))
                   (returnMatch ! 0 @ js ''return '' @ defaultReturnValue returnType
                      @ js '';'' @ [10]))))"

section \<open>The quick-fix provider\<close>

text \<open>
  The provider holds two maps from keys to resolvers, filled by its constructor and
  open to further registration, and the services it fetches documents from. A
  JavaScript \<open>Map\<close> keeps its keys in the order of their first insertion; \<open>map_set\<close> is
  its \<open>set\<close>.
\<close>

record Services =
  getOrCreateDocument :: "jsstring \<Rightarrow> js_error + Document"

record SysyQuickFixProvider =
  diagnosticMessageToFix :: "(jsstring \<times> Resolver) list"
  codeToFix :: "(jsstring \<times> Resolver) list"
  services :: Services

fun map_set :: "('k \<times> 'v)
  list \<Rightarrow> 'k \<Rightarrow> 'v \<Rightarrow> ('k \<times> 'v) list" where
  "map_set [] k v = [(k, v)]"
| "map_set ((k', v') # m) k v = (if k' = k then (k, v) # m else (k', v') # map_set m k v)"

definition registerCodeFix :: "jsstring \<Rightarrow> Resolver \<Rightarrow> SysyQuickFixProvider \<Rightarrow> SysyQuickFixProvider" where
  "registerCodeFix errorCode resolver provider =
     provider\<lparr>codeToFix := map_set (codeToFix provider) errorCode resolver\<rparr>"

definition registerMessageFix :: "jsstring \<Rightarrow> Resolver \<Rightarrow> SysyQuickFixProvider \<Rightarrow> SysyQuickFixProvider" where
  "registerMessageFix diagnosticPattern resolver provider =
     provider\<lparr>diagnosticMessageToFix :=
       map_set (diagnosticMessageToFix provider) diagnosticPattern resolver\<rparr>"

text \<open>\<open>registerQuickFixes\<close>, the registrations in the order the constructor makes them.\<close>

definition registerQuickFixes :: "SysyQuickFixProvider \<Rightarrow> SysyQuickFixProvider" where
  "registerQuickFixes provider =
     foldl (\<lambda>p register. register p) provider
      [registerCodeFix (js UNDEFINED_VARIABLE) createUndeclaredVarFix,
       registerCodeFix (js DUPLICATE_DECLARATION) createRenameDuplicateVarFix,
       registerCodeFix (js ARRAY_SIZE_OVERFLOW) createArraySizeOverflowFix,
       registerCodeFix (js UNDEFINED_FUNCTION) createUndeclaredFuncFix,
       registerCodeFix (js DUPLICATE_FUNCTION) createRenameDuplicateFuncFix,
       registerCodeFix (js PARAMETER_MISMATCH) createParameterMismatchFix,
       registerCodeFix (js INVALID_BREAK_CONTINUE) createInvalidBreakContinueFix,
       registerCodeFix (js MISSING_RETURN) createMissingReturnFix,
       registerCodeFix (js EMPTY_RETURN) createEmptyReturnFix,
       registerCodeFix (js VOID_RETURN_VALUE) createVoidReturnValueFix,
       registerCodeFix (js VOID_ASSIGNMENT) createVoidAssignmentFix,
       registerCodeFix (js TYPE_MISMATCH) createTypeMismatchFix,
       registerCodeFix (js MISSING_SEMICOLON) createMissingSemicolonFix,
       registerCodeFix (js UNMATCHED_BRACKETS) createUnmatchedBracketsFix,
       registerCodeFix (js UNUSED_VARIABLE) createUnusedVariableFix,
       registerMessageFix ([26410, 23450, 20041, 30340, 21464, 37327]) createUndeclaredVarFix,
       registerMessageFix ([26410, 22768, 26126, 30340, 21464, 37327]) createUndeclaredVarFix,
       registerMessageFix ([20351, 29992, 20102, 26410, 23450, 20041, 30340, 21464, 37327])
         createUndeclaredVarFix,
       registerMessageFix ([26080, 27861, 37325, 26032, 22768, 26126, 22359, 33539, 22260, 21464,
         37327]) createRenameDuplicateVarFix,
       registerMessageFix ([25968, 32452, 30340, 21021, 22987, 21270, 20803, 32032, 25968, 37327,
         36229, 36807,
      20102, 25968, 32452, 22823, 23567]) createArraySizeOverflowFix,
       registerMessageFix ([35843, 29992, 20102, 26410, 23450, 20041, 30340, 20989, 25968])
         createUndeclaredFuncFix,
       registerMessageFix ([20989, 25968, 21517, 24050, 32463, 23450, 20041, 36807])
         createRenameDuplicateFuncFix,
       registerMessageFix ([21442, 25968, 20010, 25968, 19981, 21305, 37197])
         createParameterMismatchFix,
       registerMessageFix ([38750, 24490, 29615, 22359, 20013, 20351, 29992, 20102])
         createInvalidBreakContinueFix,
       registerMessageFix ([26377, 36820, 22238, 20540, 30340, 20989, 25968, 32570, 23569]
         @ js '' return'') createMissingReturnFix,
       registerMessageFix ([26377, 36820, 22238, 20540, 30340, 20989, 25968, 19981, 24212, 36820,
         22238, 20026,
      31354]) createEmptyReturnFix,
       registerMessageFix (js ''void '' @ [20989, 25968, 19981, 24212, 23384, 22312, 38750, 31354,
         36820, 22238,
      20540]) createVoidReturnValueFix,
       registerMessageFix ([19981, 33021, 23558] @ js ''void'' @ [31867, 22411, 21464, 37327,
         21442, 19982, 36816,
      31639, 25110, 29992, 20110, 36171, 20540]) createVoidAssignmentFix,
       registerMessageFix ([32570, 23569, 20998, 21495]) createMissingSemicolonFix,
       registerMessageFix ([24212, 35813, 26377, 20998, 21495]) createMissingSemicolonFix,
       registerMessageFix ([25324, 21495, 19981, 21305, 37197]) createUnmatchedBracketsFix,
       registerMessageFix ([32570, 23569, 24038, 25324, 21495]) createUnmatchedBracketsFix,
       registerMessageFix ([32570, 23569, 21491, 25324, 21495]) createUnmatchedBracketsFix,
       registerMessageFix ([25324, 21495, 26410, 38381, 21512]) createUnmatchedBracketsFix,
       registerMessageFix ([26410, 20351, 29992, 30340, 21464, 37327]) createUnusedVariableFix,
       registerMessageFix ([21464, 37327, 24050, 22768, 26126, 20294, 20174, 26410, 20351, 29992])
         createUnusedVariableFix]"

definition new_SysyQuickFixProvider :: "Services \<Rightarrow> SysyQuickFixProvider" where
  "new_SysyQuickFixProvider s =
     registerQuickFixes \<lparr>diagnosticMessageToFix = [], codeToFix = [], services = s\<rparr>"

text \<open>\<open>getDiagnosticCode\<close>: a string code, or the \<open>value\<close> of an object code.\<close>

definition getDiagnosticCode :: "Diagnostic \<Rightarrow> jsstring option" where
  "getDiagnosticCode diagnostic =
     (case diag_code diagnostic of
        Some (CodeString c) \<Rightarrow> Some c
      | Some (CodeObject v) \<Rightarrow> v
      | _ \<Rightarrow> None)"

definition createGenericFix :: "Diagnostic \<Rightarrow> Document \<Rightarrow> CodeAction" where
  "createGenericFix diagnostic document =
     commandAction ([23581, 35797, 20462, 22797, 27492, 38382, 39064]) diagnostic ([23581, 35797,
       20462, 22797]) ''sysy.genericFix''
       [ArgString (doc_uri document), ArgRange (diag_range diagnostic)]"

text \<open>
  \<open>createAdditionalFixes\<close>: keyed by an error code when the key is registered as one,
  by a message pattern otherwise. The result is the array of the supplementary
  actions, \<open>undefined\<close> entries included.
\<close>

definition single :: "js_error + CodeAction option \<Rightarrow> js_error + CodeAction option list" where
  "single r = (case r of Inl e \<Rightarrow> Inl e | Inr a \<Rightarrow> Inr [a])"

definition createAdditionalFixes ::
  "SysyQuickFixProvider \<Rightarrow> jsstring \<Rightarrow> Diagnostic \<Rightarrow> Document \<Rightarrow> js_error + CodeAction option list" where
  "createAdditionalFixes provider pattern diagnostic document =
     (if map_of (codeToFix provider) pattern \<noteq> None
      then (if pattern = js UNDEFINED_VARIABLE
              then single (createGlobalVarDeclarationFix diagnostic document)
            else if pattern = js PARAMETER_MISMATCH
              then single (createAdjustParametersFix diagnostic document
                     (js_includes (diag_message diagnostic) ([20256, 36882, 20102])))
            else if pattern = js MISSING_RETURN
              then single (createAppendReturnFix diagnostic document)
            else Inr [])
      else if pattern = [20351, 29992, 20102, 26410, 23450, 20041, 30340, 21464,
        37327] \<or> pattern = [26410, 23450, 20041, 30340, 21464, 37327]
              \<or> pattern = [26410, 22768, 26126, 30340, 21464, 37327]
        then single (createGlobalVarDeclarationFix diagnostic document)
      else if pattern = [21442, 25968, 20010, 25968, 19981, 21305, 37197]
        then single (createAdjustParametersFix diagnostic document
               (js_includes (diag_message diagnostic) ([20256, 36882, 20102])))
      else if pattern = [26377, 36820, 22238, 20540, 30340, 20989, 25968, 32570, 23569]
        @ js '' return''
        then single (createAppendReturnFix diagnostic document)
      else Inr [])"

text \<open>
  A statement that pushes onto \<open>codeActions\<close> and may throw is modelled by the
  array as it stands when the statement ends together with the exception, if one was
  thrown. \<open>resolveWith\<close> is the part the two halves of
  \<open>createCodeActionsForDiagnostic\<close> share: call the resolver; if it answers an action,
  push it, compute the additional fixes and push those that are defined. Its last
  component tells whether an action was answered.
\<close>

definition resolveWith ::
  "SysyQuickFixProvider \<Rightarrow> jsstring \<Rightarrow> Resolver \<Rightarrow> Diagnostic \<Rightarrow> Document \<Rightarrow> CodeAction list
     \<Rightarrow> (CodeAction list \<times> js_error option) \<times> bool" where
  "resolveWith provider key resolver diagnostic document codeActions =
     (case resolver diagnostic document of
        Inl e \<Rightarrow> ((codeActions, Some e), False)
      | Inr None \<Rightarrow> ((codeActions, None), False)
      | Inr (Some action) \<Rightarrow>
          (case createAdditionalFixes provider key diagnostic document of
             Inl e \<Rightarrow> ((codeActions @ [action], Some e), True)
           | Inr additionalActions \<Rightarrow>
               ((codeActions @ [action] @ List.map_filter id additionalActions, None), True)))"

definition resolveByMessage ::
  "SysyQuickFixProvider \<Rightarrow> Diagnostic \<Rightarrow> Document \<Rightarrow> CodeAction list
     \<Rightarrow> CodeAction list \<times> js_error option" where
  "resolveByMessage provider diagnostic document codeActions =
     (case find (\<lambda>entry. js_includes (diag_message diagnostic) (fst entry))
             (diagnosticMessageToFix provider) of
        None \<Rightarrow> (codeActions, None)
      | Some (pattern, resolver) \<Rightarrow>
          fst (resolveWith provider pattern resolver diagnostic document codeActions))"

definition createCodeActionsForDiagnostic ::
  "SysyQuickFixProvider \<Rightarrow> Diagnostic \<Rightarrow> Document \<Rightarrow> CodeAction list
     \<Rightarrow> CodeAction list \<times> js_error option" where
  "createCodeActionsForDiagnostic provider diagnostic document codeActions =
     (case (case getDiagnosticCode diagnostic of
              None \<Rightarrow> None
            | Some code \<Rightarrow>
                if code = [] then None
                else map_option (Pair code) (map_of (codeToFix provider) code)) of
        None \<Rightarrow> resolveByMessage provider diagnostic document codeActions
      | Some (code, resolver) \<Rightarrow>
          (case resolveWith provider code resolver diagnostic document codeActions of
             ((actions, Some e), _) \<Rightarrow> (actions, Some e)
           | ((actions, None), True) \<Rightarrow> (actions, None)
           | ((actions, None), False) \<Rightarrow>
               resolveByMessage provider diagnostic document actions))"

text \<open>\<open>addRefactoringActions\<close> pushes the two extract actions for the selection.\<close>

record CodeActionParams =
  params_uri :: jsstring
  params_range :: Range
  params_diagnostics :: "Diagnostic list"

definition addRefactoringActions ::
  "CodeActionParams \<Rightarrow> Document \<Rightarrow> CodeAction list \<Rightarrow> CodeAction list" where
  "addRefactoringActions params document codeActions =
     codeActions @
     [\<lparr>ca_title = [25552, 21462, 20026, 20989,
       25968], ca_kind = RefactorExtract, ca_diagnostics = None,
       ca_edit = None,
       ca_command = Some \<lparr>cmd_title = [25552, 21462, 20026, 20989,
         25968], cmd_command = ''sysy.extractFunction'',
                           cmd_arguments = [ArgString (doc_uri document),
                                            ArgRange (params_range params)]\<rparr>\<rparr>,
      \<lparr>ca_title = [25552, 21462, 20026, 21464,
        37327], ca_kind = RefactorExtract, ca_diagnostics = None,
       ca_edit = Some [(doc_uri document,
                        [\<lparr>edit_range = params_range params,
                          newText = js ''temp_var = '' @ getText document (params_range params)
                                      @ js '';''\<rparr>])],
       ca_command = None\<rparr>]"

definition hasSelection :: "Range \<Rightarrow> bool" where
  "hasSelection r \<longleftrightarrow>
     pos_line (range_start r) = pos_line (range_end r)
     \<and> pos_character (range_start r) \<noteq> pos_character (range_end r)"

text \<open>
  \<open>getCodeActions\<close>. The whole body is one \<open>try\<close> block whose handler logs the
  exception; the array is returned as it stands.
\<close>

fun forDiagnostics ::
  "SysyQuickFixProvider \<Rightarrow> Document \<Rightarrow> Diagnostic list \<Rightarrow> CodeAction list
     \<Rightarrow> CodeAction list \<times> js_error option" where
  "forDiagnostics provider document [] codeActions = (codeActions, None)"
| "forDiagnostics provider document (diagnostic # rest) codeActions =
     (case createCodeActionsForDiagnostic provider diagnostic document codeActions of
        (actions, Some e) \<Rightarrow> (actions, Some e)
      | (actions, None) \<Rightarrow> forDiagnostics provider document rest actions)"

definition getCodeActions :: "SysyQuickFixProvider \<Rightarrow> CodeActionParams \<Rightarrow> CodeAction list" where
  "getCodeActions provider params =
     (case getOrCreateDocument (services provider) (params_uri params) of
        Inl e \<Rightarrow> []
      | Inr document \<Rightarrow>
          (case forDiagnostics provider document (params_diagnostics params) [] of
             (codeActions, Some e) \<Rightarrow> codeActions
           | (codeActions, None) \<Rightarrow>
               (let withRefactorings =
                      (if hasSelection (params_range params)
                       then addRefactoringActions params document codeActions
                       else codeActions)
                in case params_diagnostics params of
                     first # _ \<Rightarrow>
                       if withRefactorings = []
                       then [createGenericFix first document]
                       else withRefactorings
                   | [] \<Rightarrow> withRefactorings)))"

text \<open>A workspace that answers every request for a document with the same document.\<close>

definition workspaceOf :: "Document \<Rightarrow> Services" where
  "workspaceOf document = \<lparr>getOrCreateDocument = (\<lambda>uri. Inr document)\<rparr>"

section \<open>Example requests\<close>

text \<open>
  A document of two lines, \<open>int arr[3] = {1,2,3,4,5};\<close> and \<open>break;\<close>, and diagnostics
  on it: the one \<open>hoverTipsArray\<close> publishes for the first line, one with the same code
  whose message names the array \<open>(\<close>, and one for the \<open>break\<close> on the second line.
\<close>

definition exampleDocument :: Document where
  "exampleDocument =
     \<lparr>doc_uri = js ''file:///example.sysy'',
      doc_text = js ''int arr[3] = {1,2,3,4,5};'' @ [10] @ js ''break;'' @ [10]\<rparr>"


definition overflowDiagnostic :: Diagnostic where
  "overflowDiagnostic =
     \<lparr>diag_range = Range (Position 0 13) (Position 0 24),
      diag_message = [25968, 32452] @ js '' arr '' @ [30340, 21021, 22987, 21270, 20803, 32032,
        25968, 37327,
      36229, 36807, 20102, 25968, 32452, 22823, 23567, 12290],
      diag_code = Some (CodeString (js ARRAY_SIZE_OVERFLOW))\<rparr>"

definition badNameDiagnostic :: Diagnostic where
  "badNameDiagnostic =
     \<lparr>diag_range = Range (Position 0 13) (Position 0 24),
      diag_message = [25968, 32452] @ js '' ( '' @ [30340, 21021, 22987, 21270, 20803, 32032,
        25968, 37327,
      36229, 36807, 20102, 25968, 32452, 22823, 23567, 12290],
      diag_code = Some (CodeString (js ARRAY_SIZE_OVERFLOW))\<rparr>"

definition breakDiagnostic :: Diagnostic where
  "breakDiagnostic =
     \<lparr>diag_range = Range (Position 1 0) (Position 1 6),
      diag_message = [39] @ js ''break'' @ [39, 32, 35821, 21477, 21482, 33021, 22312, 24490,
        29615, 20013,
      20351, 29992, 12290],
      diag_code = Some (CodeString (js INVALID_BREAK_CONTINUE))\<rparr>"

definition unknownDiagnostic :: Diagnostic where
  "unknownDiagnostic =
     \<lparr>diag_range = Range (Position 1 0) (Position 1 6),
      diag_message = js ''unexpected token'',
      diag_code = None\<rparr>"

definition exampleProvider :: SysyQuickFixProvider where
  "exampleProvider = new_SysyQuickFixProvider (workspaceOf exampleDocument)"

definition request :: "Range \<Rightarrow> Diagnostic list \<Rightarrow> CodeActionParams" where
  "request r ds =
     \<lparr>params_uri = js ''file:///example.sysy'', params_range = r, params_diagnostics = ds\<rparr>"


definition noSelection :: Range where
  "noSelection = Range (Position 0 0) (Position 0 0)"








section \<open>Hover: the displayed type of a variable definition\<close>

text \<open>
  What \<open>buildVarDefHoverContent\<close> reads of a definition node: the definition itself, its
  container (with the property \<open>btype\<close> when the container has one) and the source
  text of the parent of its syntax node.
\<close>

datatype Container = Container (btype: "jsstring option") (outer: "Container option")

record VarDefNode =
  hv_def :: VarDef
  hv_container :: "Container option"
  hv_parentText :: "jsstring option"

definition unknown_type :: jsstring where
  "unknown_type = [26410, 30693, 31867, 22411]"

text \<open>
  The two tests on the text of the first initialiser, \<open>/^\d+$/\<close> and
  \<open>/^\d+\.\d+([eE][-+]?\d+)?$/\<close>; the optional group is written as two alternatives.
\<close>

definition looksInteger :: "jsstring \<Rightarrow> bool" where
  "looksInteger initText \<longleftrightarrow> rx_match [Rep Digit 1 None, End]
    initText \<noteq> None"

definition looksDecimal :: "jsstring \<Rightarrow> bool" where
  "looksDecimal initText \<longleftrightarrow>
     rx_match [Rep Digit 1 None, Lit (js ''.''), Rep Digit 1 None,
               Rep (OneOf [Chr 101, Chr 69]) 1 (Some 1), Rep (OneOf [Chr 45, Chr 43]) 0 (Some 1),
               Rep Digit 1 None, End] initText \<noteq> None
     \<or> rx_match [Rep Digit 1 None, Lit (js ''.''), Rep Digit 1 None, End]
       initText \<noteq> None"

text \<open>
  \<open>varDefType\<close> is the part of \<open>buildVarDefHoverContent\<close> that assigns \<open>varType\<close>: the
  value after the look at the container, after the look at the initialiser, and after
  the test of the name.
\<close>

definition typeFromContext :: "VarDefNode \<Rightarrow> jsstring" where
  "typeFromContext node =
     (case hv_container node of
        None \<Rightarrow> unknown_type
      | Some container \<Rightarrow>
          (case btype container of
             Some t \<Rightarrow> t
           | None \<Rightarrow>
               (case hv_parentText node of
                  None \<Rightarrow> unknown_type
                | Some parentText \<Rightarrow>
                    if parentText = [] then unknown_type
                    else if js_includes parentText (js ''int '') then js ''int''
                    else if js_includes parentText (js ''float '') then js ''float''
                    else unknown_type)))"

definition typeFromInit :: "VarDefNode \<Rightarrow> jsstring \<Rightarrow> jsstring" where
  "typeFromInit node varType =
     (if varType = unknown_type
      then (case def_Init (hv_def node) of
              [] \<Rightarrow> varType
            | init # _ \<Rightarrow>
                (case init_singleInit init of
                   Some initText # _ \<Rightarrow>
                     if initText = [] then varType
                     else if looksInteger initText then js ''int''
                     else if looksDecimal initText then js ''float''
                     else varType
                 | _ \<Rightarrow> varType))
      else varType)"

definition specialName :: "jsstring \<Rightarrow> bool" where
  "specialName name \<longleftrightarrow> name = js ''decimal'' \<or> name = js ''octal'' \<or> name = js ''hex''"

definition varDefType :: "VarDefNode \<Rightarrow> jsstring" where
  "varDefType node =
     (let varType = typeFromInit node (typeFromContext node)
      in if specialName (def_name (hv_def node)) then js ''int'' else varType)"

definition buildVarDefHoverContent :: "VarDefNode \<Rightarrow> jsstring" where
  "buildVarDefHoverContent node =
     (let varType = varDefType node;
          name = def_name (hv_def node);
          dims = length (def_index (hv_def node));
          detail = js ''('' @ [21464, 37327] @ js '') '' @ name @ js '': '' @ varType
            @ (if dims > 0 then js ''[]'' else []);
          content = [21464, 37327, 23450, 20041, 10, 10, 31867, 22411] @ js '': '' @ varType
            @ (if dims > 0
               then [10, 10, 36825, 26159, 19968, 20010, 25968, 32452, 21464, 37327]
                    @ (if dims = 1 then [65292, 32500, 24230, 20026] @ js '' 1'' else [65292,
                      32500, 24230, 20026, 32] @ digits_of dims)
               else [])
            @ (if def_Init (hv_def node) \<noteq> [] then [10, 10, 24050, 21021, 22987, 21270]
              else [])
      in js ''**'' @ detail @ js ''**'' @ [10, 10] @ content)"

text \<open>
  The steps of the chain as the specification names them, each answering a type or
  nothing: the type annotation of the containing declaration, the type read from the
  surrounding text, and the shape of the literal initialiser.
\<close>

definition annotationStep :: "VarDefNode \<Rightarrow> jsstring option" where
  "annotationStep node = (case hv_container node of None \<Rightarrow> None | Some c \<Rightarrow> btype c)"

definition surroundingTextStep :: "VarDefNode \<Rightarrow> jsstring option" where
  "surroundingTextStep node =
     (case hv_container node of
        None \<Rightarrow> None
      | Some c \<Rightarrow>
          (case hv_parentText node of
             None \<Rightarrow> None
           | Some parentText \<Rightarrow>
               if js_includes parentText (js ''int '') then Some (js ''int'')
               else if js_includes parentText (js ''float '') then Some (js ''float'')
               else None))"

definition initializerShapeStep :: "VarDefNode \<Rightarrow> jsstring option" where
  "initializerShapeStep node =
     (case def_Init (hv_def node) of
        [] \<Rightarrow> None
      | init # _ \<Rightarrow>
          (case init_singleInit init of
             Some initText # _ \<Rightarrow>
               if looksInteger initText then Some (js ''int'')
               else if looksDecimal initText then Some (js ''float'')
               else None
           | _ \<Rightarrow> None))"

fun firstSuccess :: "jsstring option list \<Rightarrow> jsstring" where
  "firstSuccess [] = unknown_type"
| "firstSuccess (Some t # steps) = t"
| "firstSuccess (None # steps) = firstSuccess steps"

text \<open>\<open>float hex = 1.5;\<close> and \<open>int count = 7;\<close> as the hover provider meets them.\<close>

definition floatHex :: VarDefNode where
  "floatHex =
     \<lparr>hv_def = \<lparr>def_name = js ''hex'', def_index = [],
                 def_Init = [\<lparr>init_singleInit = [Some (js ''1.5'')], init_manyInit = []\<rparr>],
                 def_range = at 0\<rparr>,
      hv_container = Some (Container (Some (js ''float'')) None),
      hv_parentText = Some (js ''float hex = 1.5;'')\<rparr>"

definition untypedCount :: VarDefNode where
  "untypedCount =
     \<lparr>hv_def = \<lparr>def_name = js ''count'', def_index = [],
                 def_Init = [\<lparr>init_singleInit = [Some (js ''7'')], init_manyInit = []\<rparr>],
                 def_range = at 0\<rparr>,
      hv_container = Some (Container None None),
      hv_parentText = Some (js ''count = 7'')\<rparr>"

section \<open>Enrichment: lookup order and exception safety\<close>

lemmas key_defs =
  key_cannot_redeclare_def key_used_undefined_variable_def key_undeclared_variable_def
  key_array_init_exceeds_def key_called_undefined_function_def key_function_name_defined_def
  key_param_count_mismatch_def key_break_in_non_loop_def key_continue_in_non_loop_def
  key_missing_return_def key_empty_return_def key_void_return_value_def key_void_assignment_def
  key_type_mismatch_def key_array_init_exceeds_pattern_def

lemmas table_eval =
  ERROR_DETAILS_def key_defs js_def is_quoted_def js_endsWith_def




text \<open>
  No key of the static table starts and ends with a double quote, so on that table the
  second loop compiles nothing and finds nothing.
\<close>

lemma ERROR_DETAILS_no_quoted_key: "list_all (\<lambda>entry. \<not> is_quoted (fst entry)) ERROR_DETAILS"
  by (simp add: table_eval)

lemma regexMatch_no_quoted:
  "list_all (\<lambda>entry. \<not> is_quoted (fst entry))
    details \<Longrightarrow> regexMatch details message = Inr None"
  by (induction details) auto

lemma regexMatch_ERROR_DETAILS: "regexMatch ERROR_DETAILS message = Inr None"
  by (rule regexMatch_no_quoted [OF ERROR_DETAILS_no_quoted_key])

lemma getEnhancedMessage_Inr: "\<exists>s. getEnhancedMessage message = Inr s"
  by (simp add: getEnhancedMessage_def enhancedMessageIn_def regexMatch_ERROR_DETAILS
      split: option.splits)

lemma getSafeEnhancedMessage_returns: "\<exists>s. getSafeEnhancedMessage message = Inr s"
  by (simp add: getSafeEnhancedMessage_def safeEnhancedMessageIn_def split: sum.splits)


lemma pattern_key_compiles:
  "new_RegExp key_array_init_exceeds_pattern [] =
     Inr ([Rep (Chr 25968) 1 (Some 1), Rep (Chr 32452) 1 (Some 1), Rep Dot 0 None]
          @ map (\<lambda>c. Rep (Chr c) 1 (Some 1))
              [21021, 22987, 21270, 20803, 32032, 25968, 37327, 36229, 36807,
               20102, 25968, 32452, 22823, 23567])"
  by (simp add: new_RegExp_def key_array_init_exceeds_pattern_def js_def regexp_plain_def
      regexp_syntax_chars_def regexp_open_group_def rx_atom_def rx_quantified_def)


lemma pattern_matches_overflow_message:
  "rx_test ([Rep (Chr 25968) 1 (Some 1), Rep (Chr 32452) 1 (Some 1), Rep Dot 0 None]
          @ map (\<lambda>c. Rep (Chr c) 1 (Some 1))
              [21021, 22987, 21270, 20803, 32032, 25968, 37327, 36229, 36807,
               20102, 25968, 32452, 22823, 23567])
     (diag_message overflowDiagnostic)"
  by (simp add: overflowDiagnostic_def js_def rx_test_def rx_exec_def rep_lengths_def
      is_line_terminator_def)







text \<open>
  On the static table the message that \<open>hoverTipsArray\<close> publishes finds no entry: no
  key is contained in it, and the pattern key, which matches it as a regular
  expression, carries no quotation marks and is not tried.
\<close>

lemma overflow_message_static_table:
  "getErrorCategory (diag_message overflowDiagnostic) = Inr (Some OTHER)
   \<and> getEnhancedMessage (diag_message overflowDiagnostic) = Inr (diag_message overflowDiagnostic)
   \<and> \<not> is_quoted key_array_init_exceeds_pattern
   \<and> (\<exists>regex. new_RegExp key_array_init_exceeds_pattern [] = Inr regex
          \<and> rx_test regex (diag_message overflowDiagnostic))"
proof -
  have 1: "exactMatch ERROR_DETAILS (diag_message overflowDiagnostic) = None"
    by (simp add: overflowDiagnostic_def table_eval)
  have 2: "\<not> is_quoted key_array_init_exceeds_pattern"
    by (simp add: table_eval)
  have n: "diag_message overflowDiagnostic \<noteq> []"
    by (simp add: overflowDiagnostic_def)
  show ?thesis
    using pattern_matches_overflow_message
    by (simp add: getErrorCategory_def getEnhancedMessage_def errorCategoryIn_def
        enhancedMessageIn_def 1 2 regexMatch_ERROR_DETAILS pattern_key_compiles n
        del: append.simps map_append list.map One_nat_def)
qed


text \<open>
  Claim C5. \<open>getSafeEnhancedMessage\<close> returns a string for every message: it never
  raises. Over any table, when the inner enrichment raises, the safe variant returns
  the original message unchanged, and when the inner enrichment returns, the safe
  variant returns the same string.
\<close>

theorem getSafeEnhancedMessage_never_raises:
  "(\<exists>s. getSafeEnhancedMessage message = Inr s)
   \<and> (\<exists>s. safeEnhancedMessageIn details message = Inr s)
   \<and> (enhancedMessageIn details message = Inl e \<longrightarrow>
        safeEnhancedMessageIn details message = Inr message)
   \<and> (enhancedMessageIn details message = Inr s' \<longrightarrow>
        safeEnhancedMessageIn details message = Inr s')"
  by (auto simp: getSafeEnhancedMessage_def safeEnhancedMessageIn_def enhancedMessageIn_def
      split: sum.splits option.splits if_splits)

theorem getSafeEnhancedMessage_never_raises_witness:
  "enhancedMessageIn [([34, 40, 34], info_type_mismatch)] (js ''a(b'') = Inl SyntaxError
   \<and> safeEnhancedMessageIn [([34, 40, 34], info_type_mismatch)]
     (js ''a(b'') = Inr (js ''a(b'')
   \<and> getSafeEnhancedMessage [] = Inr unknown_error
   \<and> getSafeEnhancedMessage (js ''.*+?^${}()|[]'') = Inr (js ''.*+?^${}()|[]'')"
proof -
  have h: "enhancedMessageIn [([34, 40, 34], info_type_mismatch)] (js ''a(b'') = Inl SyntaxError"
    by (simp add: enhancedMessageIn_def js_def is_quoted_def js_endsWith_def regexPattern_def
        js_substring_def new_RegExp_def regexp_plain_def regexp_syntax_chars_def
        regexp_open_group_def)
  have e: "getSafeEnhancedMessage [] = Inr unknown_error"
    by (simp add: getSafeEnhancedMessage_def safeEnhancedMessageIn_def enhancedMessageIn_def)
  have m: "getSafeEnhancedMessage (js ''.*+?^${}()|[]'') = Inr (js ''.*+?^${}()|[]'')"
    by (simp add: getSafeEnhancedMessage_def safeEnhancedMessageIn_def enhancedMessageIn_def
        regexMatch_ERROR_DETAILS table_eval)
  show ?thesis
    using h e m getSafeEnhancedMessage_never_raises
      [of "js ''a(b''" "[([34, 40, 34], info_type_mismatch)]" SyntaxError "[]"]
    by simp
qed

section \<open>Control-flow legality\<close>

lemma in_loop_silent:
  "inLoop \<Longrightarrow> checkStatementsInBlock b inLoop = []"
  "inLoop \<Longrightarrow> checkItems items inLoop = []"
  "inLoop \<Longrightarrow> checkStatement s inLoop = []"
  by (induction b inLoop and items inLoop and s inLoop
      rule: checkStatementsInBlock_checkItems_checkStatement.induct)
     (auto split: option.splits)

lemma checkStatementsInBlock_Some_None [simp]:
  "blockItems n = None \<Longrightarrow> checkStatementsInBlock (Some n) inLoop = []"
  by (cases n) simp

lemma checkStatementsInBlock_Some_Some [simp]:
  "blockItems n = Some items \<Longrightarrow> checkStatementsInBlock (Some n)
    inLoop = checkItems items inLoop"
  by (cases n) simp

lemma invalid_codes [simp]:
  "acc_code (invalidBreak s) = Some INVALID_BREAK_CONTINUE"
  "acc_code (invalidContinue s) = Some INVALID_BREAK_CONTINUE"
  "acc_node (invalidBreak s) = nrange s"
  "acc_node (invalidContinue s) = nrange s"
  by (simp_all add: invalidBreak_def invalidContinue_def)

lemma checkItems_every_statement:
  "checkItems items inLoop =
     concat (map (\<lambda>item. case blockStmt item of
                           None \<Rightarrow> []
                         | Some stmt \<Rightarrow> checkStatement stmt inLoop) items)"
proof (induction items)
  case Nil
  then show ?case by simp
next
  case (Cons item items)
  obtain s where i: "item = BlockItem s" by (cases item)
  show ?case using Cons i by (cases s) simp_all
qed

text \<open>
  The copy of the class that implements the check. The entry point walks the items of
  the function's body with \<open>inLoop\<close> false, and the walk meets every statement among
  them, declarations in between or not. A break or continue statement met while
  \<open>inLoop\<close> is false yields exactly one diagnostic, with code INVALID_BREAK_CONTINUE;
  met while \<open>inLoop\<close> is true it yields none. A while statement is answered by the walk
  of its body with \<open>inLoop\<close> true, which yields nothing whatever the body holds; an
  if statement is answered by the walks of its two branches with the flag it was met
  with.
\<close>

lemma implemented_check_walks_body:
  "checkBreakContinueInNonLoopBlocks funcDef = checkItems (body_items funcDef) False"
  by (cases "func_block funcDef")
     (simp add: checkBreakContinueInNonLoopBlocks_def body_items_def split: option.splits)

lemma implemented_check_legality:
  "checkBreakContinueInNonLoopBlocks funcDef =
     concat (map (\<lambda>item. case blockStmt item of
                           None \<Rightarrow> []
                         | Some stmt \<Rightarrow> checkStatement stmt False)
               (body_items funcDef))"
  "ntype stmt = ''Stmtbreak'' \<Longrightarrow> checkStatement stmt False = [invalidBreak stmt]"
  "ntype stmt = ''Stmtcontinue'' \<Longrightarrow> checkStatement stmt False = [invalidContinue stmt]"
  "acc_code (invalidBreak stmt) = Some INVALID_BREAK_CONTINUE"
  "acc_code (invalidContinue stmt) = Some INVALID_BREAK_CONTINUE"
  "checkStatement stmt True = []"
  "ntype stmt = ''Stmtwhile'' \<Longrightarrow>
     checkStatement stmt inLoop = checkStatementsInBlock (whilestmt stmt) True"
  "checkStatementsInBlock body True = []"
  "ntype stmt = ''Stmtelif'' \<Longrightarrow>
     checkStatement stmt inLoop =
       checkStatementsInBlock (ifstmt stmt) inLoop
       @ checkStatementsInBlock (elsestmt stmt) inLoop"
proof -
  show "checkBreakContinueInNonLoopBlocks funcDef =
     concat (map (\<lambda>item. case blockStmt item of
                           None \<Rightarrow> []
                         | Some stmt \<Rightarrow> checkStatement stmt False)
               (body_items funcDef))"
    by (simp only: implemented_check_walks_body checkItems_every_statement)
  obtain t r b w i e v where s: "stmt = Node t r b w i e v" by (cases stmt)
  show "ntype stmt = ''Stmtbreak'' \<Longrightarrow> checkStatement stmt False = [invalidBreak stmt]"
    using s by simp
  show "ntype stmt = ''Stmtcontinue'' \<Longrightarrow> checkStatement stmt False = [invalidContinue stmt]"
    using s by simp
  show "acc_code (invalidBreak stmt) = Some INVALID_BREAK_CONTINUE"
    "acc_code (invalidContinue stmt) = Some INVALID_BREAK_CONTINUE"
    by simp_all
  show "checkStatement stmt True = []" "checkStatementsInBlock body True = []"
    by (simp_all add: in_loop_silent)
  show "ntype stmt = ''Stmtwhile'' \<Longrightarrow>
     checkStatement stmt inLoop = checkStatementsInBlock (whilestmt stmt) True"
    using s by simp
  show "ntype stmt = ''Stmtelif'' \<Longrightarrow>
     checkStatement stmt inLoop =
       checkStatementsInBlock (ifstmt stmt) inLoop
       @ checkStatementsInBlock (elsestmt stmt) inLoop"
    using s by (simp split: option.splits)
qed


section \<open>Return shape\<close>

lemma scanReturns_top_level:
  "scanReturns items state =
     (if top_level_returns items = [] then state
      else (True, case last (top_level_returns items) of
                    None \<Rightarrow> Undefined | Some x \<Rightarrow> Returned x))"
  by (induction items state rule: scanReturns.induct) auto

lemma no_return_statement:
  "(\<forall>item \<in> set items. \<forall>stmt. blockStmt item = Some stmt \<longrightarrow> ntype stmt \<noteq> ''Stmtreturn'')
   \<Longrightarrow> top_level_returns items = []"
  by (induction items rule: top_level_returns.induct) auto

lemma return_codes [simp]:
  "acc_code (missingReturn f) = Some MISSING_RETURN"
  "acc_code (emptyReturn f) = Some EMPTY_RETURN"
  "acc_code (voidReturnValue f) = Some VOID_RETURN_VALUE"
  by (simp_all add: missingReturn_def emptyReturn_def voidReturnValue_def)

lemma checkFunctionReturnType_eq:
  "checkFunctionReturnType func =
     (let rs = top_level_returns (body_items func) in
      if rs = [] then (if func_functype func \<noteq> js ''void'' then [missingReturn func]
        else [])
      else if func_functype func \<noteq> js ''void''
        then (if last rs = None then [emptyReturn func] else [])
      else (if last rs \<noteq> None then [voidReturnValue func] else []))"
  by (auto simp: checkFunctionReturnType_def body_items_def scanReturns_top_level Let_def
      split: option.splits)

text \<open>
  Claim C6. The return-shape check reads only the statements of the function's own
  block. A non-void function without a return statement among them yields
  MISSING_RETURN, and so does one whose return statements all sit inside other
  statements (an if, a while); a non-void function whose top-level return has no
  expression yields EMPTY_RETURN; a void function whose top-level return has an
  expression yields VOID_RETURN_VALUE. Where the block holds several top-level return
  statements, the last one is the one the check reads.
\<close>

theorem return_shape:
  "(func_functype func \<noteq> js ''void'' \<and> top_level_returns (body_items func) = [] \<longrightarrow>
      checkFunctionReturnType func = [missingReturn func])
   \<and> (func_functype func \<noteq> js ''void'' \<and> top_level_returns (body_items func) \<noteq> []
        \<and> last (top_level_returns (body_items func)) = None \<longrightarrow>
      checkFunctionReturnType func = [emptyReturn func])
   \<and> (func_functype func = js ''void'' \<and> top_level_returns (body_items func) \<noteq> []
        \<and> last (top_level_returns (body_items func)) \<noteq> None \<longrightarrow>
      checkFunctionReturnType func = [voidReturnValue func])
   \<and> (func_functype func \<noteq> js ''void''
        \<and> (\<forall>item \<in> set (body_items func). \<forall>stmt.
              blockStmt item = Some stmt \<longrightarrow> ntype stmt \<noteq> ''Stmtreturn'') \<longrightarrow>
      checkFunctionReturnType func = [missingReturn func])
   \<and> acc_code (missingReturn func) = Some MISSING_RETURN
   \<and> acc_code (emptyReturn func) = Some EMPTY_RETURN
   \<and> acc_code (voidReturnValue func) = Some VOID_RETURN_VALUE"
  using no_return_statement [of "body_items func"]
  by (auto simp: checkFunctionReturnType_eq Let_def)

text \<open>
  \<open>int f() { x = 1; }\<close> and \<open>int f() { if (c) { return 1; } }\<close> yield MISSING_RETURN,
  \<open>int f() { return; }\<close> yields EMPTY_RETURN, \<open>void f() { return 1; }\<close> yields
  VOID_RETURN_VALUE.
\<close>

theorem return_shape_witness:
  "map acc_code (checkFunctionReturnType
      \<lparr>func_functype = js ''int'', func_name = js ''f'', func_funcFparam = [],
       func_block = block_of (at 0) [stmt_assign (at 0)], func_range = at 0\<rparr>)
     = [Some MISSING_RETURN]
   \<and> map acc_code (checkFunctionReturnType
      \<lparr>func_functype = js ''int'', func_name = js ''f'', func_funcFparam = [],
       func_block = block_of (at 0)
         [stmt_if (at 1) (block_of (at 1) [stmt_return (at 2) (Some (Exp (js ''1'')))]) None],
       func_range = at 0\<rparr>)
     = [Some MISSING_RETURN]
   \<and> map acc_code (checkFunctionReturnType
      \<lparr>func_functype = js ''int'', func_name = js ''f'', func_funcFparam = [],
       func_block = block_of (at 0) [stmt_return (at 1) None], func_range = at 0\<rparr>)
     = [Some EMPTY_RETURN]
   \<and> map acc_code (checkFunctionReturnType
      \<lparr>func_functype = js ''void'', func_name = js ''f'', func_funcFparam = [],
       func_block = block_of (at 0) [stmt_return (at 1) (Some (Exp (js ''1'')))],
       func_range = at 0\<rparr>)
     = [Some VOID_RETURN_VALUE]"
  using return_shape [of "\<lparr>func_functype = js ''int'', func_name = js ''f'', func_funcFparam = [],
       func_block = block_of (at 0) [stmt_assign (at 0)], func_range = at 0\<rparr>"]
    return_shape [of "\<lparr>func_functype = js ''int'', func_name = js ''f'', func_funcFparam = [],
       func_block = block_of (at 0)
         [stmt_if (at 1) (block_of (at 1) [stmt_return (at 2) (Some (Exp (js ''1'')))]) None],
       func_range = at 0\<rparr>"]
    return_shape [of "\<lparr>func_functype = js ''int'', func_name = js ''f'', func_funcFparam = [],
       func_block = block_of (at 0) [stmt_return (at 1) None], func_range = at 0\<rparr>"]
    return_shape [of "\<lparr>func_functype = js ''void'', func_name = js ''f'', func_funcFparam = [],
       func_block = block_of (at 0) [stmt_return (at 1) (Some (Exp (js ''1'')))],
       func_range = at 0\<rparr>"]
  by (simp add: stmt_defs body_items_def js_def)

section \<open>Arity of a call to an unresolved function\<close>

text \<open>
  Claim C10. For a call node whose reference \<open>funcname\<close> is unresolved, the arity check
  collects no declared parameter: with at least one argument it emits exactly one
  PARAMETER_MISMATCH diagnostic with \<open>expectedCount\<close> 0 and \<open>actualCount\<close> the number of
  arguments. The check of the callee emits UNDEFINED_FUNCTION, with the name as
  written, for the unresolved reference; neither check looks at the other.
\<close>

theorem unresolved_callee_arity:
  "func_ref (rp_funcname func) = None \<and> rp_funcRparams func \<noteq> [] \<longrightarrow>
     (\<exists>d dd. checkFunctionParameterMismatch func = [d]
        \<and> acc_code d = Some PARAMETER_MISMATCH \<and> acc_severity d = Sev_error
        \<and> acc_data d = Some dd
        \<and> data_expectedCount dd = Some 0
        \<and> data_actualCount dd = Some (length (rp_funcRparams func)))
     \<and> (func_ref (fc_funcname funcCall) = None \<longrightarrow>
          (\<exists>d dd. checkFunctionDeclared funcCall = [d]
             \<and> acc_code d = Some UNDEFINED_FUNCTION \<and> acc_data d = Some dd
             \<and> data_functionName dd = Some (func_refText (fc_funcname funcCall))))"
  by (auto simp: checkFunctionParameterMismatch_def checkFunctionDeclared_def
      declaredParamTexts_def Let_def diagnosticData_def)

theorem unresolved_callee_arity_witness:
  "map acc_code (checkFunctionParameterMismatch
      \<lparr>rp_funcname = \<lparr>func_ref = None, func_refText = js ''foo''\<rparr>,
       rp_funcRparams = [Exp (js ''1''), Exp (js ''2'')], rp_range = at 0,
       rp_container = None\<rparr>) = [Some PARAMETER_MISMATCH]
   \<and> map (map_option data_actualCount \<circ> acc_data) (checkFunctionParameterMismatch
      \<lparr>rp_funcname = \<lparr>func_ref = None, func_refText = js ''foo''\<rparr>,
       rp_funcRparams = [Exp (js ''1''), Exp (js ''2'')], rp_range = at 0,
       rp_container = None\<rparr>) = [Some (Some 2)]
   \<and> map acc_code (checkFunctionDeclared
      \<lparr>fc_funcname = \<lparr>func_ref = None, func_refText = js ''foo''\<rparr>, fc_range = at 0\<rparr>)
     = [Some UNDEFINED_FUNCTION]"
  using unresolved_callee_arity [of
      "\<lparr>rp_funcname = \<lparr>func_ref = None, func_refText = js ''foo''\<rparr>,
       rp_funcRparams = [Exp (js ''1''), Exp (js ''2'')], rp_range = at 0,
       rp_container = None\<rparr>"
      "\<lparr>fc_funcname = \<lparr>func_ref = None, func_refText = js ''foo''\<rparr>, fc_range = at 0\<rparr>"]
  by auto

section \<open>Repeated validation\<close>

lemma checkUniqueDef_loop_reported:
  "ws_reported ws = ws_reported ws' \<Longrightarrow>
     fst (checkUniqueDef_loop ds ws) = fst (checkUniqueDef_loop ds ws')"
proof (induction ds arbitrary: ws ws')
  case Nil
  then show ?case by simp
next
  case (Cons d ds)
  have "fst (checkUniqueDef_loop ds (ws\<lparr>ws_reported := insert (def_name d)
    (ws_reported ws)\<rparr>))
      = fst (checkUniqueDef_loop ds (ws'\<lparr>ws_reported := insert (def_name d)
        (ws_reported ws')\<rparr>))"
    by (rule Cons.IH) (simp add: Cons.prems)
  then show ?case using Cons.prems by (simp add: split_beta)
qed

lemma checkUniqueFuncName_loop_funcNames:
  "ws_funcNames ws = ws_funcNames ws' \<Longrightarrow>
     fst (checkUniqueFuncName_loop fs ws) = fst (checkUniqueFuncName_loop fs ws')"
proof (induction fs arbitrary: ws ws')
  case Nil
  then show ?case by simp
next
  case (Cons f fs)
  have a: "fst (checkUniqueFuncName_loop fs ws) = fst (checkUniqueFuncName_loop fs ws')"
    by (rule Cons.IH) (rule Cons.prems)
  have b: "fst (checkUniqueFuncName_loop fs (ws\<lparr>ws_funcNames := insert (func_name f)
    (ws_funcNames ws)\<rparr>))
      = fst (checkUniqueFuncName_loop fs (ws'\<lparr>ws_funcNames := insert (func_name f)
        (ws_funcNames ws')\<rparr>))"
    by (rule Cons.IH) (simp add: Cons.prems)
  show ?case using a b Cons.prems by (simp add: split_beta)
qed

lemma runChecks_fresh: "fst (runChecks n ws) = fst (runChecks n ws')"
proof (cases n)
  case (N_Decl d)
  then show ?thesis
    using checkUniqueDef_loop_reported
      [of "ws\<lparr>ws_reported := {}\<rparr>" "ws'\<lparr>ws_reported := {}\<rparr>" "decl_defs d"]
    by (simp add: checkUniqueDef_def split_beta)
next
  case (N_CompUnit u)
  then show ?thesis
    using checkUniqueFuncName_loop_funcNames
      [of "ws\<lparr>ws_funcNames := {}\<rparr>" "ws'\<lparr>ws_funcNames := {}\<rparr>" "unit_functions u"]
    by (simp add: checkUniqueFuncName_def split_beta)
qed simp_all

lemma validate_fresh: "fst (validate ast ws) = fst (validate ast ws')"
proof (induction ast arbitrary: ws ws')
  case Nil
  then show ?case by simp
next
  case (Cons n ns)
  have "fst (validate ns (snd (runChecks n ws))) = fst (validate ns (snd (runChecks n ws')))"
    by (rule Cons.IH)
  then show ?case using runChecks_fresh [of n ws ws'] by (simp add: split_beta)
qed

text \<open>
  Claim C9. Run on the same tree a second time, starting from whatever the first run
  left in the working sets, the validation pass gives the same list of outcomes: the
  same diagnostics with the same codes, messages and ranges, in the same order. More
  generally the outcome does not depend on the contents of the working sets at the
  start, since each uniqueness check begins with a new, empty set.
\<close>

theorem validation_repeatable:
  "fst (validate ast (snd (validate ast ws))) = fst (validate ast ws)
   \<and> fst (validate ast ws') = fst (validate ast ws)"
  using validate_fresh [of ast "snd (validate ast ws)" ws] validate_fresh [of ast ws' ws]
  by simp

text \<open>
  A declaration group with the names \<open>a, a, b\<close>: the first run reports the second
  \<open>a\<close> and nothing else, leaves both names in the working set, and the second run
  reports the same.
\<close>

theorem validation_repeatable_witness:
  "map (map_sum id (map acc_node))
     (fst (validate
       [N_Decl \<lparr>decl_defs =
          [\<lparr>def_name = js ''a'', def_index = [], def_Init = [], def_range = at 1\<rparr>,
           \<lparr>def_name = js ''a'', def_index = [], def_Init = [], def_range = at 2\<rparr>,
           \<lparr>def_name = js ''b'', def_index = [], def_Init = [], def_range = at 3\<rparr>]\<rparr>]
       \<lparr>ws_reported = {}, ws_funcNames = {}\<rparr>)) = [Inr [at 2]]
   \<and> ws_reported (snd (validate
       [N_Decl \<lparr>decl_defs =
          [\<lparr>def_name = js ''a'', def_index = [], def_Init = [], def_range = at 1\<rparr>,
           \<lparr>def_name = js ''a'', def_index = [], def_Init = [], def_range = at 2\<rparr>,
           \<lparr>def_name = js ''b'', def_index = [], def_Init = [], def_range = at 3\<rparr>]\<rparr>]
       \<lparr>ws_reported = {}, ws_funcNames = {}\<rparr>)) = {js ''a'', js ''b''}
   \<and> map (map_sum id (map acc_node))
     (fst (validate
       [N_Decl \<lparr>decl_defs =
          [\<lparr>def_name = js ''a'', def_index = [], def_Init = [], def_range = at 1\<rparr>,
           \<lparr>def_name = js ''a'', def_index = [], def_Init = [], def_range = at 2\<rparr>,
           \<lparr>def_name = js ''b'', def_index = [], def_Init = [], def_range = at 3\<rparr>]\<rparr>]
       \<lparr>ws_reported = {js ''a'', js ''b''}, ws_funcNames = {}\<rparr>)) = [Inr [at 2]]"
  using validation_repeatable [of
       "[N_Decl \<lparr>decl_defs =
          [\<lparr>def_name = js ''a'', def_index = [], def_Init = [], def_range = at 1\<rparr>,
           \<lparr>def_name = js ''a'', def_index = [], def_Init = [], def_range = at 2\<rparr>,
           \<lparr>def_name = js ''b'', def_index = [], def_Init = [], def_range = at 3\<rparr>]\<rparr>]"
       "\<lparr>ws_reported = {}, ws_funcNames = {}\<rparr>"
       "\<lparr>ws_reported = {js ''a'', js ''b''}, ws_funcNames = {}\<rparr>"]
  by (auto simp: checkUniqueDef_def duplicateDeclaration_def js_def)

section \<open>Quick fixes\<close>

lemmas rx_eval =
  rx_exec_def rx_test_def rep_lengths_def js_def is_space_def is_digit_def is_word_def
  is_line_terminator_def js_replace_def

lemmas registry_eval =
  new_SysyQuickFixProvider_def registerQuickFixes_def registerCodeFix_def
  registerMessageFix_def ERROR_CODES_defs js_def

lemma exampleProvider_codeToFix:
  "map_of (codeToFix exampleProvider) (js ARRAY_SIZE_OVERFLOW) = Some createArraySizeOverflowFix"
  "map_of (codeToFix exampleProvider)
    (js INVALID_BREAK_CONTINUE) = Some createInvalidBreakContinueFix"
  by (simp_all add: exampleProvider_def registry_eval)

lemma exampleProvider_services:
  "getOrCreateDocument (services exampleProvider) uri = Inr exampleDocument"
  by (simp add: exampleProvider_def registry_eval workspaceOf_def)


lemma badName_throws: "createArraySizeOverflowFix badNameDiagnostic exampleDocument = Inl SyntaxError"
  by (simp add: createArraySizeOverflowFix_def badNameDiagnostic_def rx_eval new_RegExp_def
      regexp_plain_def regexp_syntax_chars_def regexp_open_group_def startLine_def)


lemma forDiagnostics_append:
  "forDiagnostics provider document (xs @ ys) codeActions =
     (case forDiagnostics provider document xs codeActions of
        (actions, Some e) \<Rightarrow> (actions, Some e)
      | (actions, None) \<Rightarrow> forDiagnostics provider document ys actions)"
  by (induction xs arbitrary: codeActions) (auto split: prod.splits option.splits)

lemma break_fix:
  "createCodeActionsForDiagnostic exampleProvider breakDiagnostic exampleDocument codeActions =
     (codeActions @
        [editAction ([21024, 38500, 26080, 25928, 30340] @ js '' break/continue '' @ [35821,
          21477]) breakDiagnostic exampleDocument
           (lineRange 1) (js ''// '' @ [24050, 21024, 38500, 26080, 25928, 30340]
             @ js '' break/continue '' @
      [35821, 21477, 10])], None)"
proof -
  have c: "getDiagnosticCode breakDiagnostic = Some (js INVALID_BREAK_CONTINUE)"
    by (simp add: getDiagnosticCode_def breakDiagnostic_def)
  have n: "js INVALID_BREAK_CONTINUE \<noteq> []"
    by (simp add: js_def ERROR_CODES_defs)
  have a: "createAdditionalFixes exampleProvider (js INVALID_BREAK_CONTINUE) breakDiagnostic
             exampleDocument = Inr []"
    by (simp add: createAdditionalFixes_def exampleProvider_codeToFix)
       (simp add: js_def ERROR_CODES_defs)
  have r: "createInvalidBreakContinueFix breakDiagnostic exampleDocument =
     Inr (Some (editAction ([21024, 38500, 26080, 25928, 30340] @ js '' break/continue ''
       @ [35821, 21477]) breakDiagnostic exampleDocument
           (lineRange 1) (js ''// '' @ [24050, 21024, 38500, 26080, 25928, 30340]
             @ js '' break/continue '' @
      [35821, 21477, 10])))"
    by (simp add: createInvalidBreakContinueFix_def startLine_def breakDiagnostic_def)
  show ?thesis
    by (simp add: createCodeActionsForDiagnostic_def c n exampleProvider_codeToFix
        resolveWith_def a r List.map_filter_simps)
qed

lemma badName_aborts:
  "createCodeActionsForDiagnostic exampleProvider badNameDiagnostic exampleDocument codeActions =
     (codeActions, Some SyntaxError)"
proof -
  have c: "getDiagnosticCode badNameDiagnostic = Some (js ARRAY_SIZE_OVERFLOW)"
    by (simp add: getDiagnosticCode_def badNameDiagnostic_def)
  have n: "js ARRAY_SIZE_OVERFLOW \<noteq> []"
    by (simp add: js_def ERROR_CODES_defs)
  show ?thesis
    by (simp add: createCodeActionsForDiagnostic_def c n exampleProvider_codeToFix
        resolveWith_def badName_throws)
qed


lemma unknown_no_action:
  "createCodeActionsForDiagnostic exampleProvider unknownDiagnostic exampleDocument codeActions =
     (codeActions, None)"
  by (simp add: createCodeActionsForDiagnostic_def getDiagnosticCode_def unknownDiagnostic_def
      resolveByMessage_def exampleProvider_def registry_eval)

text \<open>
  Claim C1, as amended. When the resolver registered for the code of a diagnostic
  throws, the exception leaves \<open>createCodeActionsForDiagnostic\<close> and ends the loop over
  the batch; it is caught by the handler around the whole request, which returns the
  actions collected for the diagnostics before that one. The diagnostics after it are
  not processed, and neither the refactoring actions nor the generic fix are added:
  the result does not depend on them.
\<close>

theorem resolver_exception_ends_batch:
  "getOrCreateDocument (services provider) (params_uri params) = Inr document
   \<and> params_diagnostics params = before @ diagnostic # after
   \<and> forDiagnostics provider document before [] = (collected, None)
   \<longrightarrow>
     (createCodeActionsForDiagnostic provider diagnostic document collected
        = (collected', Some e)
      \<longrightarrow> getCodeActions provider params = collected')
     \<and> (getDiagnosticCode diagnostic = Some code \<and> code \<noteq> []
          \<and> map_of (codeToFix provider) code = Some resolver
          \<and> resolver diagnostic document = Inl e
        \<longrightarrow> createCodeActionsForDiagnostic provider diagnostic document collected
              = (collected, Some e)
            \<and> getCodeActions provider params = collected)"
proof -
  have 1: "getCodeActions provider params = c'"
    if "getOrCreateDocument (services provider) (params_uri params) = Inr document"
      "params_diagnostics params = before @ diagnostic # after"
      "forDiagnostics provider document before [] = (collected, None)"
      "createCodeActionsForDiagnostic provider diagnostic document collected = (c', Some e)"
    for c'
    using that by (simp add: getCodeActions_def forDiagnostics_append)
  have 2: "createCodeActionsForDiagnostic provider diagnostic document collected
              = (collected, Some e)"
    if "getDiagnosticCode diagnostic = Some code" "code \<noteq> []"
      "map_of (codeToFix provider) code = Some resolver"
      "resolver diagnostic document = Inl e"
    using that by (simp add: createCodeActionsForDiagnostic_def resolveWith_def)
  show ?thesis using 1 2 by blast
qed

theorem resolver_exception_ends_batch_witness:
  "createArraySizeOverflowFix badNameDiagnostic exampleDocument = Inl SyntaxError
   \<and> getCodeActions exampleProvider
        (request noSelection [breakDiagnostic, badNameDiagnostic, overflowDiagnostic])
      = [editAction ([21024, 38500, 26080, 25928, 30340] @ js '' break/continue '' @ [35821,
        21477]) breakDiagnostic exampleDocument
           (lineRange 1) (js ''// '' @ [24050, 21024, 38500, 26080, 25928, 30340]
             @ js '' break/continue '' @
      [35821, 21477, 10])]"
proof -
  have b: "forDiagnostics exampleProvider exampleDocument [breakDiagnostic] [] =
     ([editAction ([21024, 38500, 26080, 25928, 30340] @ js '' break/continue '' @ [35821, 21477])
       breakDiagnostic exampleDocument
           (lineRange 1) (js ''// '' @ [24050, 21024, 38500, 26080, 25928, 30340]
             @ js '' break/continue '' @
      [35821, 21477, 10])], None)"
    by (simp add: break_fix)
  have c: "getDiagnosticCode badNameDiagnostic = Some (js ARRAY_SIZE_OVERFLOW)"
    by (simp add: getDiagnosticCode_def badNameDiagnostic_def)
  have n: "js ARRAY_SIZE_OVERFLOW \<noteq> []"
    by (simp add: js_def ERROR_CODES_defs)
  have p: "params_diagnostics
             (request noSelection [breakDiagnostic, badNameDiagnostic, overflowDiagnostic])
           = [breakDiagnostic] @ badNameDiagnostic # [overflowDiagnostic]"
    by (simp add: request_def)
  show ?thesis
    using resolver_exception_ends_batch
      [of exampleProvider
          "request noSelection [breakDiagnostic, badNameDiagnostic, overflowDiagnostic]"
          exampleDocument "[breakDiagnostic]" badNameDiagnostic "[overflowDiagnostic]"
          "[editAction ([21024, 38500, 26080, 25928, 30340] @ js '' break/continue '' @ [35821,
            21477]) breakDiagnostic exampleDocument
              (lineRange 1) (js ''// '' @ [24050, 21024, 38500, 26080, 25928, 30340]
                @ js '' break/continue '' @
      [35821, 21477, 10])]"
          "[]" SyntaxError "js ARRAY_SIZE_OVERFLOW" createArraySizeOverflowFix]
      b c n p exampleProvider_services exampleProvider_codeToFix badName_throws
    by simp
qed

text \<open>
  The claim as stated fails: in the batch of the diagnostic whose resolver throws
  followed by the diagnostic of a \<open>break\<close>, no action is produced for the second one,
  although alone it yields an action.
\<close>

theorem later_diagnostics_dropped_counterexample:
  "createArraySizeOverflowFix badNameDiagnostic exampleDocument = Inl SyntaxError
   \<and> getCodeActions exampleProvider (request noSelection [badNameDiagnostic, breakDiagnostic]) = []
   \<and> getCodeActions exampleProvider (request noSelection [breakDiagnostic])
      = [editAction ([21024, 38500, 26080, 25928, 30340] @ js '' break/continue '' @ [35821,
        21477]) breakDiagnostic exampleDocument
           (lineRange 1) (js ''// '' @ [24050, 21024, 38500, 26080, 25928, 30340]
             @ js '' break/continue '' @
      [35821, 21477, 10])]"
  by (simp add: badName_throws getCodeActions_def exampleProvider_services request_def
      badName_aborts break_fix noSelection_def hasSelection_def)

text \<open>
  Claim C7, as amended. For a request whose batch is not empty, whose diagnostics all
  resolve to no action without an exception, and whose range is not a non-empty
  selection within one line, the result is exactly one action: the generic quick fix
  for the first diagnostic, which carries the command \<open>sysy.genericFix\<close> with the URI
  and the range of that diagnostic and no edit. With such a selection the result is
  the two extract actions and no generic fix.
\<close>

theorem generic_fix_when_nothing_found:
  "getOrCreateDocument (services provider) (params_uri params) = Inr document
   \<and> params_diagnostics params = first # rest
   \<and> forDiagnostics provider document (first # rest) [] = ([], None)
   \<longrightarrow>
     (\<not> hasSelection (params_range params) \<longrightarrow>
        getCodeActions provider params = [createGenericFix first document])
     \<and> (hasSelection (params_range params) \<longrightarrow>
        getCodeActions provider params = addRefactoringActions params document []
        \<and> createGenericFix first document \<notin> set (getCodeActions provider params))
     \<and> ca_kind (createGenericFix first document) = QuickFix
     \<and> ca_edit (createGenericFix first document) = None
     \<and> map_option cmd_command (ca_command (createGenericFix first document))
          = Some ''sysy.genericFix''
     \<and> map_option cmd_arguments (ca_command (createGenericFix first document))
          = Some [ArgString (doc_uri document), ArgRange (diag_range first)]"
  by (auto simp: getCodeActions_def createGenericFix_def commandAction_def
      addRefactoringActions_def)

theorem generic_fix_when_nothing_found_witness:
  "forDiagnostics exampleProvider exampleDocument [unknownDiagnostic] [] = ([], None)
   \<and> getCodeActions exampleProvider (request noSelection [unknownDiagnostic])
      = [createGenericFix unknownDiagnostic exampleDocument]"
proof -
  have f: "forDiagnostics exampleProvider exampleDocument [unknownDiagnostic] [] = ([], None)"
    by (simp add: unknown_no_action)
  have s: "\<not> hasSelection (params_range (request noSelection [unknownDiagnostic]))"
    by (simp add: request_def noSelection_def hasSelection_def)
  have p: "params_diagnostics (request noSelection [unknownDiagnostic]) = unknownDiagnostic # []"
    by (simp add: request_def)
  show ?thesis
    using generic_fix_when_nothing_found
      [of exampleProvider "request noSelection [unknownDiagnostic]" exampleDocument
          unknownDiagnostic "[]"]
      f s p exampleProvider_services
    by simp
qed

text \<open>
  The claim as stated fails when the request carries a selection: the diagnostic
  resolves to no action, yet the result holds the two extract actions and no generic
  fix.
\<close>

theorem selection_suppresses_generic_fix_counterexample:
  "forDiagnostics exampleProvider exampleDocument [unknownDiagnostic] [] = ([], None)
   \<and> map ca_kind (getCodeActions exampleProvider
        (request (Range (Position 1 0) (Position 1 5)) [unknownDiagnostic]))
      = [RefactorExtract, RefactorExtract]
   \<and> createGenericFix unknownDiagnostic exampleDocument
      \<notin> set (getCodeActions exampleProvider
        (request (Range (Position 1 0) (Position 1 5)) [unknownDiagnostic]))"
  by (simp add: unknown_no_action getCodeActions_def exampleProvider_services request_def
      hasSelection_def addRefactoringActions_def createGenericFix_def commandAction_def)

section \<open>Array bound check and its fix\<close>
















lemma rx_match_Nil: "rx_match [] s = Some []"
  by simp
















section \<open>Hover: the fallback chain\<close>

lemma looks_nonempty: "looksInteger [] = False" "looksDecimal [] = False"
  by (simp_all add: looksInteger_def looksDecimal_def rep_lengths_def)

text \<open>
  Claim C8, as amended. A definition named \<open>decimal\<close>, \<open>octal\<close> or \<open>hex\<close> is always
  displayed as \<open>int\<close>, whatever the other steps would answer. For every other name
  (and a type annotation other than the placeholder text itself) the displayed type
  is given by the chain in this order: the type annotation of the containing
  declaration, then the type read from the surrounding text, then the shape of the
  literal initialiser; the first step that answers decides, and the placeholder for
  an unknown type is displayed when none does.
\<close>

theorem hover_type_chain:
  "(specialName (def_name (hv_def node)) \<longrightarrow> varDefType node = js ''int'')
   \<and> (\<not> specialName (def_name (hv_def node)) \<and> annotationStep node \<noteq> Some unknown_type
        \<longrightarrow> varDefType node =
              firstSuccess [annotationStep node, surroundingTextStep node,
                            initializerShapeStep node])"
proof -
  have int_float: "js ''int'' \<noteq> unknown_type" "js ''float'' \<noteq> unknown_type"
    by (simp_all add: js_def unknown_type_def)
  have empty: "js_startsWith [] (js ''int '') = False" "js_startsWith [] (js ''float '') = False"
    by (simp_all add: js_def)
  have "varDefType node =
              firstSuccess [annotationStep node, surroundingTextStep node,
                            initializerShapeStep node]"
    if "\<not> specialName (def_name (hv_def node))" "annotationStep node \<noteq> Some unknown_type"
    using that int_float
    by (auto simp: varDefType_def typeFromInit_def typeFromContext_def annotationStep_def
        surroundingTextStep_def initializerShapeStep_def looks_nonempty Let_def empty
        split: option.splits list.splits)
  then show ?thesis by (simp add: varDefType_def)
qed

theorem hover_type_chain_witness:
  "specialName (def_name (hv_def floatHex)) \<and> varDefType floatHex = js ''int''
   \<and> \<not> specialName (def_name (hv_def untypedCount))
   \<and> annotationStep untypedCount \<noteq> Some unknown_type
   \<and> varDefType untypedCount = js ''int''"
proof -
  have a: "specialName (def_name (hv_def floatHex))"
    by (simp add: specialName_def floatHex_def)
  have b: "\<not> specialName (def_name (hv_def untypedCount))"
    by (simp add: specialName_def untypedCount_def js_def)
  have c: "annotationStep untypedCount \<noteq> Some unknown_type"
    by (simp add: annotationStep_def untypedCount_def)
  have d: "firstSuccess [annotationStep untypedCount, surroundingTextStep untypedCount,
                            initializerShapeStep untypedCount] = js ''int''"
    by (simp add: annotationStep_def surroundingTextStep_def initializerShapeStep_def
        untypedCount_def looksInteger_def rep_lengths_def is_digit_def js_def)
  show ?thesis
    using a b c d hover_type_chain [of floatHex] hover_type_chain [of untypedCount]
    by simp
qed

text \<open>
  The claim as stated fails for \<open>float hex = 1.5;\<close>: the first step of the chain
  answers \<open>float\<close>, and the type displayed is \<open>int\<close>.
\<close>

theorem name_exception_overrides_counterexample:
  "annotationStep floatHex = Some (js ''float'')
   \<and> firstSuccess [annotationStep floatHex, surroundingTextStep floatHex,
                    initializerShapeStep floatHex] = js ''float''
   \<and> varDefType floatHex = js ''int''
   \<and> js ''int'' \<noteq> js ''float''
   \<and> buildVarDefHoverContent floatHex =
        js ''**('' @ [21464, 37327] @ js '') hex: int**'' @ [10, 10, 21464, 37327, 23450, 20041,
      10, 10, 31867, 22411] @ js '': int'' @ [10, 10, 24050, 21021, 22987, 21270]"
  by (simp add: annotationStep_def floatHex_def varDefType_def specialName_def
      buildVarDefHoverContent_def js_def Let_def)

end
